theory Spec2Isabelle
  imports Complex_Main "HOL-Library.Sublist"
begin

section \<open>The chat route: data model\<close>

text \<open>
  A shallow embedding of \<^verbatim>\<open>src/app/api/chat/route.ts\<close>: the request handler \<^verbatim>\<open>POST\<close>,
  its bounded tool-calling loop, the retry loop around every call of the language model,
  the search tool \<^verbatim>\<open>googleSearch\<close> and the mapping of a terminal error to an HTTP status.

  Conventions.
  \<^item> JavaScript strings are \<^typ>\<open>string\<close>; a character outside ASCII is its UTF-8 bytes. Every
    pattern the code searches for is ASCII, so a match on bytes is a match on the source string.
  \<^item> JavaScript numbers are IEEE doubles. A finite double is the rational it denotes; the
    result of an operation is the exact result rounded to the nearest double, ties to even,
    or infinity on overflow (\<open>to_double\<close> below). The backoff starts at 2000 and is doubled at
    most four times, which is exact, so it is kept as a rational.
  \<^item> \<^verbatim>\<open>undefined\<close> is \<open>None\<close>; a thrown value is a value of \<open>thrown\<close>, and a function that
    can throw returns a sum with the thrown value on the left.
  \<^item> The language model, the custom-search service and \<^verbatim>\<open>JSON.stringify\<close> are not part of the
    repository: they are fields of the environment. What the handler does to the outside
    world (model calls, waits, searches) is recorded in a trace.
\<close>

datatype msg_role = RoleUser | RoleAssistant

text \<open>\<^verbatim>\<open>type Message = { role: 'user' | 'assistant'; content: string }\<close>\<close>

record Message =
  role :: msg_role
  content :: string

text \<open>
  A function call of a model response: \<^verbatim>\<open>call.name\<close> and \<^verbatim>\<open>call.args\<close>, both optional in
  the SDK's type. Of the arguments only \<^verbatim>\<open>args.query\<close> is read, so \<open>args\<close> is \<open>None\<close> when
  \<^verbatim>\<open>call.args\<close> is undefined and otherwise holds the value of \<^verbatim>\<open>args.query\<close>.
\<close>

record FunctionCall =
  name :: "string option"
  args :: "string option option"

text \<open>
  \<^verbatim>\<open>Part\<close> and \<^verbatim>\<open>Content\<close> of the SDK, as far as the handler builds or forwards them: a text
  part, a function-response part (tool name and the \<^verbatim>\<open>search_snippet\<close> of its response), and
  the function-call part of a model turn.
\<close>

datatype Part =
  TextPart string
  | FunctionCallPart FunctionCall
  | FunctionResponsePart string string

record Content =
  crole :: string
  parts :: "Part list"

text \<open>
  What the handler reads of a model response: \<^verbatim>\<open>response.functionCalls\<close> (undefined is the
  empty list), \<^verbatim>\<open>response.candidates?.[0]?.content\<close> and \<^verbatim>\<open>response.text\<close>. The handler
  reads them as three properties, and so does the record. In the SDK the first and the last
  are getters computed from the parts of the first candidate's content, so a response of
  the SDK with a function call has that content (\<open>sdk_response\<close> below).
\<close>

record Response =
  functionCalls :: "FunctionCall list"
  candidate_content :: "Content option"
  response_text :: "string option"

text \<open>
  A thrown value: an instance of \<^verbatim>\<open>Error\<close> with its message, or anything else
  (\<^verbatim>\<open>error instanceof Error\<close> is false).
\<close>

datatype thrown = Error string | NonError

text \<open>An item of the custom-search response, and what \<^verbatim>\<open>formatSearchResults\<close> keeps of it.\<close>

record RawItem =
  raw_title :: "string option"
  raw_snippet :: "string option"
  raw_link :: "string option"
  raw_rest :: string

record SearchResult =
  title :: "string option"
  snippet :: "string option"
  link :: "string option"

text \<open>The value \<^verbatim>\<open>googleSearch\<close> returns: \<^verbatim>\<open>{ query, result: { search_snippet } }\<close>.\<close>

record ToolResult =
  query :: "string option"
  search_snippet :: string

text \<open>
  The environment of a request: the configured key, the model (the number of the call and
  the conversation sent; it returns a response or throws), the search service (the number of
  the search and the query; \<open>None\<close> when it throws, otherwise \<^verbatim>\<open>response.data.items || []\<close>)
  and \<^verbatim>\<open>JSON.stringify\<close> on formatted results.
\<close>

record Env =
  GEMINI_API_KEY :: "string option"
  generateContent :: "nat \<Rightarrow> Content list \<Rightarrow> thrown + Response"
  cse_list :: "nat \<Rightarrow> string option \<Rightarrow> RawItem list option"
  JSON_stringify :: "SearchResult list \<Rightarrow> string"

text \<open>A non-negative JavaScript number: a finite double, or \<^verbatim>\<open>Infinity\<close>.\<close>

datatype js_number = Finite rat | Infinity

text \<open>
  The trace: how many times the model was called, the arguments of \<^verbatim>\<open>delay\<close> in order, and
  the queries given to \<^verbatim>\<open>googleSearch\<close> in order.
\<close>

record Trace =
  calls :: nat
  delays :: "js_number list"
  searches :: "string option list"

definition trace0 :: Trace where
  "trace0 = \<lparr>calls = 0, delays = [], searches = []\<rparr>"

text \<open>
  The session store \<^verbatim>\<open>global.chatHistoryMap\<close>. An entry of a history is \<open>None\<close> when the
  handler pushed \<^verbatim>\<open>undefined\<close> (the last element of an empty \<^verbatim>\<open>messages\<close> array).
\<close>

type_synonym History = "Message option list"

type_synonym Store = "string \<rightharpoonup> History"

record Request =
  messages :: "Message list"
  sessionId :: string

datatype Body = MessageBody string | ErrorBody string

text \<open>
  What a request ends in: a JSON response with its status, or an exception that leaves the
  handler (thrown outside its \<^verbatim>\<open>try\<close> block).
\<close>

datatype Outcome = Json nat Body | Unhandled thrown

section \<open>String literals of the source\<close>

text \<open>The assistant's display name (``CAT Music College'') (UTF-8 bytes of the source literal).\<close>

definition AI_NICKNAME :: string where
  "AI_NICKNAME =
    [CHR ''C'', CHR ''A'', CHR ''T'', CHR 0xE3, CHR 0x83, CHR 0x9F, CHR 0xE3, CHR 0x83,
     CHR 0xA5, CHR 0xE3, CHR 0x83, CHR 0xBC, CHR 0xE3, CHR 0x82, CHR 0xB8, CHR 0xE3, CHR 0x83,
     CHR 0x83, CHR 0xE3, CHR 0x82, CHR 0xAF, CHR 0xE3, CHR 0x82, CHR 0xAB, CHR 0xE3, CHR 0x83,
     CHR 0xAC, CHR 0xE3, CHR 0x83, CHR 0x83, CHR 0xE3, CHR 0x82, CHR 0xB8]"

text \<open>Fallback reply, text before the nickname (UTF-8 bytes of the source literal).\<close>

definition reply_head :: string where
  "reply_head =
    [CHR 0xE3, CHR 0x81, CHR 0x94, CHR 0xE3, CHR 0x82, CHR 0x81, CHR 0xE3, CHR 0x82, CHR 0x93,
     CHR 0xE3, CHR 0x80, CHR 0x81]"

text \<open>Fallback reply, text after the nickname (UTF-8 bytes of the source literal).\<close>

definition reply_tail :: string where
  "reply_tail =
    [CHR 0xE3, CHR 0x81, CHR 0xAF, CHR 0xE3, CHR 0x83, CHR 0x9E, CHR 0xE3, CHR 0x82, CHR 0xB8,
     CHR 0xE3, CHR 0x81, CHR 0xA7, CHR 0xE3, CHR 0x81, CHR 0x86, CHR 0xE3, CHR 0x81, CHR 0xBE,
     CHR 0xE3, CHR 0x81, CHR 0x8F, CHR 0xE8, CHR 0xBF, CHR 0x94, CHR 0xE3, CHR 0x81, CHR 0x9B,
     CHR 0xE3, CHR 0x81, CHR 0xB8, CHR 0xE3, CHR 0x82, CHR 0x93, CHR 0xE3, CHR 0x81, CHR 0x8B,
     CHR 0xE3, CHR 0x81, CHR 0xA3, CHR 0xE3, CHR 0x81, CHR 0x9F, CHR 0xE3, CHR 0x82, CHR 0x8F,
     CHR 0xF0, CHR 0x9F, CHR 0x98, CHR 0xAD, CHR 0xEF, CHR 0xBC, CHR 0x81]"

text \<open>``the Gemini API key is not set'' (UTF-8 bytes of the source literal).\<close>

definition MSG_KEY_NOT_SET :: string where
  "MSG_KEY_NOT_SET =
    [CHR ''G'', CHR ''e'', CHR ''m'', CHR ''i'', CHR ''n'', CHR ''i'', CHR '' '', CHR ''A'',
     CHR ''P'', CHR ''I'', CHR 0xE3, CHR 0x82, CHR 0xAD, CHR 0xE3, CHR 0x83, CHR 0xBC,
     CHR 0xE3, CHR 0x81, CHR 0x8C, CHR 0xE8, CHR 0xA8, CHR 0xAD, CHR 0xE5, CHR 0xAE, CHR 0x9A,
     CHR 0xE3, CHR 0x81, CHR 0x95, CHR 0xE3, CHR 0x82, CHR 0x8C, CHR 0xE3, CHR 0x81, CHR 0xA6,
     CHR 0xE3, CHR 0x81, CHR 0x84, CHR 0xE3, CHR 0x81, CHR 0xBE, CHR 0xE3, CHR 0x81, CHR 0x9B,
     CHR 0xE3, CHR 0x82, CHR 0x93, CHR 0xE3, CHR 0x80, CHR 0x82]"

text \<open>Initial value of userErrorMessage: ``an unexpected error occurred while talking to the server'' (UTF-8 bytes of the source literal).\<close>

definition MSG_UNEXPECTED :: string where
  "MSG_UNEXPECTED =
    [CHR 0xE7, CHR 0x94, CHR 0xB3, CHR 0xE3, CHR 0x81, CHR 0x97, CHR 0xE8, CHR 0xA8, CHR 0xB3,
     CHR 0xE3, CHR 0x81, CHR 0x82, CHR 0xE3, CHR 0x82, CHR 0x8A, CHR 0xE3, CHR 0x81, CHR 0xBE,
     CHR 0xE3, CHR 0x81, CHR 0x9B, CHR 0xE3, CHR 0x82, CHR 0x93, CHR 0xE3, CHR 0x80, CHR 0x82,
     CHR 0xE3, CHR 0x82, CHR 0xB5, CHR 0xE3, CHR 0x83, CHR 0xBC, CHR 0xE3, CHR 0x83, CHR 0x90,
     CHR 0xE3, CHR 0x83, CHR 0xBC, CHR 0xE3, CHR 0x81, CHR 0xA8, CHR 0xE3, CHR 0x81, CHR 0xAE,
     CHR 0xE9, CHR 0x80, CHR 0x9A, CHR 0xE4, CHR 0xBF, CHR 0xA1, CHR 0xE4, CHR 0xB8, CHR 0xAD,
     CHR 0xE3, CHR 0x81, CHR 0xAB, CHR 0xE4, CHR 0xBA, CHR 0x88, CHR 0xE6, CHR 0x9C, CHR 0x9F,
     CHR 0xE3, CHR 0x81, CHR 0x9B, CHR 0xE3, CHR 0x81, CHR 0xAC, CHR 0xE3, CHR 0x82, CHR 0xA8,
     CHR 0xE3, CHR 0x83, CHR 0xA9, CHR 0xE3, CHR 0x83, CHR 0xBC, CHR 0xE3, CHR 0x81, CHR 0x8C,
     CHR 0xE7, CHR 0x99, CHR 0xBA, CHR 0xE7, CHR 0x94, CHR 0x9F, CHR 0xE3, CHR 0x81, CHR 0x97,
     CHR 0xE3, CHR 0x81, CHR 0xBE, CHR 0xE3, CHR 0x81, CHR 0x97, CHR 0xE3, CHR 0x81, CHR 0x9F,
     CHR 0xE3, CHR 0x80, CHR 0x82]"

text \<open>503: ``the service is very busy; retries did not help'' (UTF-8 bytes of the source literal).\<close>

definition MSG_OVERLOADED :: string where
  "MSG_OVERLOADED =
    [CHR 0xE7, CHR 0x8F, CHR 0xBE, CHR 0xE5, CHR 0x9C, CHR 0xA8, CHR 0xE3, CHR 0x82, CHR 0xB5,
     CHR 0xE3, CHR 0x83, CHR 0xBC, CHR 0xE3, CHR 0x83, CHR 0x93, CHR 0xE3, CHR 0x82, CHR 0xB9,
     CHR 0xE3, CHR 0x81, CHR 0x8C, CHR 0xE5, CHR 0xA4, CHR 0xA7, CHR 0xE5, CHR 0xA4, CHR 0x89,
     CHR 0xE6, CHR 0xB7, CHR 0xB7, CHR 0xE3, CHR 0x81, CHR 0xBF, CHR 0xE5, CHR 0x90, CHR 0x88,
     CHR 0xE3, CHR 0x81, CHR 0xA3, CHR 0xE3, CHR 0x81, CHR 0xA6, CHR 0xE3, CHR 0x81, CHR 0x84,
     CHR 0xE3, CHR 0x81, CHR 0xBE, CHR 0xE3, CHR 0x81, CHR 0x99, CHR 0xE3, CHR 0x80, CHR 0x82,
     CHR 0xE3, CHR 0x83, CHR 0xAA, CHR 0xE3, CHR 0x83, CHR 0x88, CHR 0xE3, CHR 0x83, CHR 0xA9,
     CHR 0xE3, CHR 0x82, CHR 0xA4, CHR 0xE3, CHR 0x82, CHR 0x92, CHR 0xE8, CHR 0xA9, CHR 0xA6,
     CHR 0xE3, CHR 0x81, CHR 0xBF, CHR 0xE3, CHR 0x81, CHR 0xBE, CHR 0xE3, CHR 0x81, CHR 0x97,
     CHR 0xE3, CHR 0x81, CHR 0x9F, CHR 0xE3, CHR 0x81, CHR 0x8C, CHR 0xE8, CHR 0xA7, CHR 0xA3,
     CHR 0xE6, CHR 0xB1, CHR 0xBA, CHR 0xE3, CHR 0x81, CHR 0x97, CHR 0xE3, CHR 0x81, CHR 0xBE,
     CHR 0xE3, CHR 0x81, CHR 0x9B, CHR 0xE3, CHR 0x82, CHR 0x93, CHR 0xE3, CHR 0x81, CHR 0xA7,
     CHR 0xE3, CHR 0x81, CHR 0x97, CHR 0xE3, CHR 0x81, CHR 0x9F, CHR 0xE3, CHR 0x80, CHR 0x82,
     CHR 0xE6, CHR 0x99, CHR 0x82, CHR 0xE9, CHR 0x96, CHR 0x93, CHR 0xE3, CHR 0x82, CHR 0x92,
     CHR 0xE7, CHR 0xBD, CHR 0xAE, CHR 0xE3, CHR 0x81, CHR 0x84, CHR 0xE3, CHR 0x81, CHR 0xA6,
     CHR 0xE5, CHR 0x86, CHR 0x8D, CHR 0xE5, CHR 0xBA, CHR 0xA6, CHR 0xE3, CHR 0x81, CHR 0x8A,
     CHR 0xE8, CHR 0xA9, CHR 0xA6, CHR 0xE3, CHR 0x81, CHR 0x97, CHR 0xE3, CHR 0x81, CHR 0x8F,
     CHR 0xE3, CHR 0x81, CHR 0xA0, CHR 0xE3, CHR 0x81, CHR 0x95, CHR 0xE3, CHR 0x81, CHR 0x84,
     CHR 0xE3, CHR 0x80, CHR 0x82]"

text \<open>429: ``the API quota is exceeded'' (UTF-8 bytes of the source literal).\<close>

definition MSG_QUOTA :: string where
  "MSG_QUOTA =
    [CHR 0xE7, CHR 0x8F, CHR 0xBE, CHR 0xE5, CHR 0x9C, CHR 0xA8, CHR 0xE3, CHR 0x80, CHR 0x81,
     CHR ''A'', CHR ''P'', CHR ''I'', CHR 0xE3, CHR 0x81, CHR 0xAE, CHR 0xE5, CHR 0x88,
     CHR 0xA9, CHR 0xE7, CHR 0x94, CHR 0xA8, CHR 0xE5, CHR 0x88, CHR 0xB6, CHR 0xE9, CHR 0x99,
     CHR 0x90, CHR 0xEF, CHR 0xBC, CHR 0x88, CHR 0xE3, CHR 0x82, CHR 0xAF, CHR 0xE3, CHR 0x82,
     CHR 0xA9, CHR 0xE3, CHR 0x83, CHR 0xBC, CHR 0xE3, CHR 0x82, CHR 0xBF, CHR 0xEF, CHR 0xBC,
     CHR 0x89, CHR 0xE3, CHR 0x82, CHR 0x92, CHR 0xE8, CHR 0xB6, CHR 0x85, CHR 0xE9, CHR 0x81,
     CHR 0x8E, CHR 0xE3, CHR 0x81, CHR 0x97, CHR 0xE3, CHR 0x81, CHR 0xA6, CHR 0xE3, CHR 0x81,
     CHR 0x84, CHR 0xE3, CHR 0x81, CHR 0xBE, CHR 0xE3, CHR 0x81, CHR 0x99, CHR 0xE3, CHR 0x80,
     CHR 0x82, CHR 0xE6, CHR 0x95, CHR 0xB0, CHR 0xE5, CHR 0x88, CHR 0x86, CHR 0xE5, CHR 0xBE,
     CHR 0x85, CHR 0xE3, CHR 0x81, CHR 0xA3, CHR 0xE3, CHR 0x81, CHR 0xA6, CHR 0xE3, CHR 0x81,
     CHR 0x8B, CHR 0xE3, CHR 0x82, CHR 0x89, CHR 0xE5, CHR 0x86, CHR 0x8D, CHR 0xE5, CHR 0xBA,
     CHR 0xA6, CHR 0xE3, CHR 0x81, CHR 0x8A, CHR 0xE8, CHR 0xA9, CHR 0xA6, CHR 0xE3, CHR 0x81,
     CHR 0x97, CHR 0xE3, CHR 0x81, CHR 0x8F, CHR 0xE3, CHR 0x81, CHR 0xA0, CHR 0xE3, CHR 0x81,
     CHR 0x95, CHR 0xE3, CHR 0x81, CHR 0x84, CHR 0xE3, CHR 0x80, CHR 0x82]"

text \<open>401: ``there is a problem with the credentials; check the API key'' (UTF-8 bytes of the source literal).\<close>

definition MSG_AUTH :: string where
  "MSG_AUTH =
    [CHR 0xE8, CHR 0xAA, CHR 0x8D, CHR 0xE8, CHR 0xA8, CHR 0xBC, CHR 0xE6, CHR 0x83, CHR 0x85,
     CHR 0xE5, CHR 0xA0, CHR 0xB1, CHR 0xE3, CHR 0x81, CHR 0xAB, CHR 0xE5, CHR 0x95, CHR 0x8F,
     CHR 0xE9, CHR 0xA1, CHR 0x8C, CHR 0xE3, CHR 0x81, CHR 0x8C, CHR 0xE3, CHR 0x81, CHR 0x82,
     CHR 0xE3, CHR 0x82, CHR 0x8A, CHR 0xE3, CHR 0x81, CHR 0xBE, CHR 0xE3, CHR 0x81, CHR 0x99,
     CHR 0xE3, CHR 0x80, CHR 0x82, CHR ''A'', CHR ''P'', CHR ''I'', CHR 0xE3, CHR 0x82,
     CHR 0xAD, CHR 0xE3, CHR 0x83, CHR 0xBC, CHR 0xE3, CHR 0x81, CHR 0xAE, CHR 0xE8, CHR 0xA8,
     CHR 0xAD, CHR 0xE5, CHR 0xAE, CHR 0x9A, CHR 0xE3, CHR 0x82, CHR 0x92, CHR 0xE7, CHR 0xA2,
     CHR 0xBA, CHR 0xE8, CHR 0xAA, CHR 0x8D, CHR 0xE3, CHR 0x81, CHR 0x97, CHR 0xE3, CHR 0x81,
     CHR 0xA6, CHR 0xE3, CHR 0x81, CHR 0x8F, CHR 0xE3, CHR 0x81, CHR 0xA0, CHR 0xE3, CHR 0x81,
     CHR 0x95, CHR 0xE3, CHR 0x81, CHR 0x84, CHR 0xE3, CHR 0x80, CHR 0x82]"

text \<open>400: ``an invalid request was sent'' (UTF-8 bytes of the source literal).\<close>

definition MSG_INVALID :: string where
  "MSG_INVALID =
    [CHR 0xE7, CHR 0x84, CHR 0xA1, CHR 0xE5, CHR 0x8A, CHR 0xB9, CHR 0xE3, CHR 0x81, CHR 0xAA,
     CHR 0xE3, CHR 0x83, CHR 0xAA, CHR 0xE3, CHR 0x82, CHR 0xAF, CHR 0xE3, CHR 0x82, CHR 0xA8,
     CHR 0xE3, CHR 0x82, CHR 0xB9, CHR 0xE3, CHR 0x83, CHR 0x88, CHR 0xE3, CHR 0x81, CHR 0x8C,
     CHR 0xE9, CHR 0x80, CHR 0x81, CHR 0xE4, CHR 0xBF, CHR 0xA1, CHR 0xE3, CHR 0x81, CHR 0x95,
     CHR 0xE3, CHR 0x82, CHR 0x8C, CHR 0xE3, CHR 0x81, CHR 0xBE, CHR 0xE3, CHR 0x81, CHR 0x97,
     CHR 0xE3, CHR 0x81, CHR 0x9F, CHR 0xE3, CHR 0x80, CHR 0x82, CHR 0xE3, CHR 0x82, CHR 0xA2,
     CHR 0xE3, CHR 0x83, CHR 0x97, CHR 0xE3, CHR 0x83, CHR 0xAA, CHR 0xE3, CHR 0x82, CHR 0xB1,
     CHR 0xE3, CHR 0x83, CHR 0xBC, CHR 0xE3, CHR 0x82, CHR 0xB7, CHR 0xE3, CHR 0x83, CHR 0xA7,
     CHR 0xE3, CHR 0x83, CHR 0xB3, CHR 0xE5, CHR 0x81, CHR 0xB4, CHR 0xE3, CHR 0x81, CHR 0xAB,
     CHR 0xE5, CHR 0x95, CHR 0x8F, CHR 0xE9, CHR 0xA1, CHR 0x8C, CHR 0xE3, CHR 0x81, CHR 0x8C,
     CHR 0xE3, CHR 0x81, CHR 0x82, CHR 0xE3, CHR 0x82, CHR 0x8B, CHR 0xE5, CHR 0x8F, CHR 0xAF,
     CHR 0xE8, CHR 0x83, CHR 0xBD, CHR 0xE6, CHR 0x80, CHR 0xA7, CHR 0xE3, CHR 0x81, CHR 0x8C,
     CHR 0xE3, CHR 0x81, CHR 0x82, CHR 0xE3, CHR 0x82, CHR 0x8A, CHR 0xE3, CHR 0x81, CHR 0xBE,
     CHR 0xE3, CHR 0x81, CHR 0x99, CHR 0xE3, CHR 0x80, CHR 0x82]"

text \<open>Otherwise: ``a server error occurred; see the console log'' (UTF-8 bytes of the source literal).\<close>

definition MSG_SERVER :: string where
  "MSG_SERVER =
    [CHR 0xE3, CHR 0x82, CHR 0xB5, CHR 0xE3, CHR 0x83, CHR 0xBC, CHR 0xE3, CHR 0x83, CHR 0x90,
     CHR 0xE3, CHR 0x83, CHR 0xBC, CHR 0xE3, CHR 0x82, CHR 0xA8, CHR 0xE3, CHR 0x83, CHR 0xA9,
     CHR 0xE3, CHR 0x83, CHR 0xBC, CHR 0xE3, CHR 0x81, CHR 0x8C, CHR 0xE7, CHR 0x99, CHR 0xBA,
     CHR 0xE7, CHR 0x94, CHR 0x9F, CHR 0xE3, CHR 0x81, CHR 0x97, CHR 0xE3, CHR 0x81, CHR 0xBE,
     CHR 0xE3, CHR 0x81, CHR 0x97, CHR 0xE3, CHR 0x81, CHR 0x9F, CHR 0xE3, CHR 0x80, CHR 0x82,
     CHR 0xE8, CHR 0xA9, CHR 0xB3, CHR 0xE7, CHR 0xB4, CHR 0xB0, CHR 0xE3, CHR 0x81, CHR 0xAB,
     CHR 0xE3, CHR 0x81, CHR 0xA4, CHR 0xE3, CHR 0x81, CHR 0x84, CHR 0xE3, CHR 0x81, CHR 0xA6,
     CHR 0xE3, CHR 0x81, CHR 0xAF, CHR 0xE3, CHR 0x80, CHR 0x81, CHR 0xE3, CHR 0x82, CHR 0xB3,
     CHR 0xE3, CHR 0x83, CHR 0xB3, CHR 0xE3, CHR 0x82, CHR 0xBD, CHR 0xE3, CHR 0x83, CHR 0xBC,
     CHR 0xE3, CHR 0x83, CHR 0xAB, CHR 0xE3, CHR 0x83, CHR 0xAD, CHR 0xE3, CHR 0x82, CHR 0xB0,
     CHR 0xE3, CHR 0x82, CHR 0x92, CHR 0xE7, CHR 0xA2, CHR 0xBA, CHR 0xE8, CHR 0xAA, CHR 0x8D,
     CHR 0xE3, CHR 0x81, CHR 0x97, CHR 0xE3, CHR 0x81, CHR 0xA6, CHR 0xE3, CHR 0x81, CHR 0x8F,
     CHR 0xE3, CHR 0x81, CHR 0xA0, CHR 0xE3, CHR 0x81, CHR 0x95, CHR 0xE3, CHR 0x81, CHR 0x84,
     CHR 0xE3, CHR 0x80, CHR 0x82]"

text \<open>``no search results were found'' (UTF-8 bytes of the source literal).\<close>

definition SNIPPET_NOT_FOUND :: string where
  "SNIPPET_NOT_FOUND =
    [CHR 0xE6, CHR 0xA4, CHR 0x9C, CHR 0xE7, CHR 0xB4, CHR 0xA2, CHR 0xE7, CHR 0xB5, CHR 0x90,
     CHR 0xE6, CHR 0x9E, CHR 0x9C, CHR 0xE3, CHR 0x81, CHR 0xAF, CHR 0xE8, CHR 0xA6, CHR 0x8B,
     CHR 0xE3, CHR 0x81, CHR 0xA4, CHR 0xE3, CHR 0x81, CHR 0x8B, CHR 0xE3, CHR 0x82, CHR 0x8A,
     CHR 0xE3, CHR 0x81, CHR 0xBE, CHR 0xE3, CHR 0x81, CHR 0x9B, CHR 0xE3, CHR 0x82, CHR 0x93,
     CHR 0xE3, CHR 0x81, CHR 0xA7, CHR 0xE3, CHR 0x81, CHR 0x97, CHR 0xE3, CHR 0x81, CHR 0x9F,
     CHR 0xE3, CHR 0x80, CHR 0x82]"

text \<open>Prefix of a successful search payload: ``[excerpt of web search results]: '' (UTF-8 bytes of the source literal).\<close>

definition SNIPPET_EXCERPT :: string where
  "SNIPPET_EXCERPT =
    [CHR 0xE3, CHR 0x80, CHR 0x90, CHR ''W'', CHR ''e'', CHR ''b'', CHR 0xE6, CHR 0xA4,
     CHR 0x9C, CHR 0xE7, CHR 0xB4, CHR 0xA2, CHR 0xE7, CHR 0xB5, CHR 0x90, CHR 0xE6, CHR 0x9E,
     CHR 0x9C, CHR 0xE3, CHR 0x81, CHR 0xAE, CHR 0xE6, CHR 0x8A, CHR 0x9C, CHR 0xE7, CHR 0xB2,
     CHR 0x8B, CHR 0xE3, CHR 0x80, CHR 0x91, CHR '':'', CHR '' '']"

text \<open>``an error occurred while searching'' (UTF-8 bytes of the source literal).\<close>

definition SNIPPET_ERROR :: string where
  "SNIPPET_ERROR =
    [CHR 0xE6, CHR 0xA4, CHR 0x9C, CHR 0xE7, CHR 0xB4, CHR 0xA2, CHR 0xE4, CHR 0xB8, CHR 0xAD,
     CHR 0xE3, CHR 0x81, CHR 0xAB, CHR 0xE3, CHR 0x82, CHR 0xA8, CHR 0xE3, CHR 0x83, CHR 0xA9,
     CHR 0xE3, CHR 0x83, CHR 0xBC, CHR 0xE3, CHR 0x81, CHR 0x8C, CHR 0xE7, CHR 0x99, CHR 0xBA,
     CHR 0xE7, CHR 0x94, CHR 0x9F, CHR 0xE3, CHR 0x81, CHR 0x97, CHR 0xE3, CHR 0x81, CHR 0xBE,
     CHR 0xE3, CHR 0x81, CHR 0x97, CHR 0xE3, CHR 0x81, CHR 0x9F, CHR 0xE3, CHR 0x80, CHR 0x82,
     CHR ''W'', CHR ''e'', CHR ''b'', CHR 0xE6, CHR 0xA4, CHR 0x9C, CHR 0xE7, CHR 0xB4,
     CHR 0xA2, CHR ''A'', CHR ''P'', CHR ''I'', CHR 0xE3, CHR 0x81, CHR 0xA7, CHR 0xE3,
     CHR 0x82, CHR 0xA8, CHR 0xE3, CHR 0x83, CHR 0xA9, CHR 0xE3, CHR 0x83, CHR 0xBC, CHR 0xE3,
     CHR 0x81, CHR 0x8C, CHR 0xE7, CHR 0x99, CHR 0xBA, CHR 0xE7, CHR 0x94, CHR 0x9F, CHR 0xE3,
     CHR 0x81, CHR 0x97, CHR 0xE3, CHR 0x81, CHR 0xBE, CHR 0xE3, CHR 0x81, CHR 0x97, CHR 0xE3,
     CHR 0x81, CHR 0x9F, CHR 0xE3, CHR 0x80, CHR 0x82]"
definition fallback_reply :: string where
  "fallback_reply = reply_head @ AI_NICKNAME @ reply_tail"

text \<open>
  The message of the \<^verbatim>\<open>TypeError\<close> raised by \<^verbatim>\<open>args.query\<close> when \<^verbatim>\<open>args\<close> is undefined (the
  wording is the engine's; here V8's).
\<close>

definition type_error :: thrown where
  "type_error =
     Error (''Cannot read properties of undefined (reading '' @ [CHR 0x27] @ ''query''
            @ [CHR 0x27] @ '')'')"

section \<open>Pattern matching on error messages\<close>

definition is_digit :: "char \<Rightarrow> bool" where
  "is_digit c = (c \<in> set ''0123456789'')"

text \<open>\<^verbatim>\<open>String.prototype.includes\<close>: some suffix of the string starts with the pattern.\<close>

fun includes_js :: "string \<Rightarrow> string \<Rightarrow> bool" where
  "includes_js [] pat = (pat = [])"
| "includes_js (c # cs) pat = (prefix pat (c # cs) \<or> includes_js cs pat)"

text \<open>The pattern \<^verbatim>\<open>code":\<close> that both the regular expression and \<^verbatim>\<open>includes\<close> look for.\<close>

definition code_colon :: string where
  "code_colon = ''code'' @ [CHR 0x22] @ '':''"

text \<open>
  The first group of the first match of \<^verbatim>\<open>/code\":(\d+)/\<close>: at the leftmost position where
  \<^verbatim>\<open>code":\<close> is followed by a digit, the longest run of digits.
\<close>

fun match_code :: "string \<Rightarrow> string option" where
  "match_code [] = None"
| "match_code (c # cs) =
     (if prefix code_colon (c # cs)
         \<and> takeWhile is_digit (drop (length code_colon) (c # cs)) \<noteq> []
      then Some (takeWhile is_digit (drop (length code_colon) (c # cs)))
      else match_code cs)"

text \<open>
  \<^verbatim>\<open>parseInt(digits, 10)\<close> on a non-empty string of digits. The result is only compared with
  503, 429 and 400, and a double equals one of these exactly when the integer does.
\<close>

definition digit_val :: "char \<Rightarrow> nat" where
  "digit_val c = of_char c - of_char CHR ''0''"

definition parseInt :: "string \<Rightarrow> nat" where
  "parseInt ds = foldl (\<lambda>n c. 10 * n + digit_val c) 0 ds"

text \<open>
  \<^verbatim>\<open>statusCodeMatch ? parseInt(statusCodeMatch[1], 10) : 0\<close>, as both catch blocks compute it.
\<close>

definition statusCode :: "string \<Rightarrow> nat" where
  "statusCode msg = (case match_code msg of Some ds \<Rightarrow> parseInt ds | None \<Rightarrow> 0)"

text \<open>
  \<^verbatim>\<open>/retry in (\d+(\.\d+)?)s/\<close> tried at one position, after the text \<^verbatim>\<open>retry in \<close>: the longest
  run of digits, then a dot with its longest run of digits if there is one, then \<^verbatim>\<open>s\<close>.
  Giving digits back never helps (the character after a shorter run is a digit, which is
  neither a dot nor \<^verbatim>\<open>s\<close>), so this is the only way the pattern matches there. The result is
  the integer digits and the fraction digits (empty without a fraction).
\<close>

definition retry_in_at :: "string \<Rightarrow> (string \<times> string) option" where
  "retry_in_at rest =
     (let d1 = takeWhile is_digit rest; r1 = dropWhile is_digit rest in
      if d1 = [] then None
      else (case r1 of
              [] \<Rightarrow> None
            | c # r2 \<Rightarrow>
                if c = CHR ''.'' \<and> takeWhile is_digit r2 \<noteq> [] then
                  (case dropWhile is_digit r2 of
                     [] \<Rightarrow> None
                   | c' # _ \<Rightarrow> if c' = CHR ''s'' then Some (d1, takeWhile is_digit r2) else None)
                else if c = CHR ''s'' then Some (d1, [])
                else None))"

definition retry_in :: string where
  "retry_in = ''retry in ''"

text \<open>The first match of \<^verbatim>\<open>/retry in (\d+(\.\d+)?)s/\<close> in the message.\<close>

fun match_retry :: "string \<Rightarrow> (string \<times> string) option" where
  "match_retry [] = None"
| "match_retry (c # cs) =
     (if prefix retry_in (c # cs) \<and> retry_in_at (drop (length retry_in) (c # cs)) \<noteq> None
      then retry_in_at (drop (length retry_in) (c # cs))
      else match_retry cs)"

section \<open>Numbers\<close>

text \<open>The number of binary digits of a natural number.\<close>

fun bit_length :: "nat \<Rightarrow> nat" where
  "bit_length n = (if n = 0 then 0 else Suc (bit_length (n div 2)))"

declare bit_length.simps [simp del]

definition pow2 :: "int \<Rightarrow> rat" where
  "pow2 e = (if 0 \<le> e then 2 ^ nat e else 1 / 2 ^ nat (- e))"

text \<open>
  For a positive rational \<open>x\<close>, the exponent \<open>e\<close> with \<open>2\<^bsup>e\<^esup> \<le> x < 2\<^bsup>e+1\<^esup>\<close>: the difference
  of the bit lengths of numerator and denominator, or one less.
\<close>

definition exponent :: "rat \<Rightarrow> int" where
  "exponent x =
     (let e0 = int (bit_length (nat (fst (quotient_of x))))
               - int (bit_length (nat (snd (quotient_of x))))
      in if pow2 e0 \<le> x then e0 else e0 - 1)"

text \<open>The nearest integer, the even one of two that are equally near.\<close>

definition round_half_even :: "rat \<Rightarrow> int" where
  "round_half_even y =
     (if y - of_int \<lfloor>y\<rfloor> < 1 / 2 then \<lfloor>y\<rfloor>
      else if 1 / 2 < y - of_int \<lfloor>y\<rfloor> then \<lfloor>y\<rfloor> + 1
      else if even \<lfloor>y\<rfloor> then \<lfloor>y\<rfloor> else \<lfloor>y\<rfloor> + 1)"

text \<open>
  The double nearest to a non-negative rational (IEEE 754 binary64, round to nearest, ties
  to even): 53 significant bits, the exponent not below \<open>-1022\<close> (below it the spacing stays
  \<open>2\<^bsup>-1074\<^esup>\<close>), and infinity when the rounded value reaches \<open>2\<^bsup>1024\<^esup>\<close>.
\<close>

definition to_double :: "rat \<Rightarrow> js_number" where
  "to_double x =
     (if x = 0 then Finite 0
      else
        (let ulp = pow2 (max (exponent x) (- 1022) - 52);
             r = of_int (round_half_even (x / ulp)) * ulp
         in if pow2 1024 \<le> r then Infinity else Finite r))"

text \<open>The value of the matched decimal: integer digits and fraction digits.\<close>

definition decimal_value :: "string \<times> string \<Rightarrow> rat" where
  "decimal_value d =
     of_nat (parseInt (fst d)) + of_nat (parseInt (snd d)) / 10 ^ length (snd d)"

text \<open>
  \<^verbatim>\<open>parseFloat\<close> of the matched decimal: the double nearest to its value (as V8 computes
  it; the language allows an engine to be less exact beyond twenty significant digits).
\<close>

definition parseFloat :: "string \<times> string \<Rightarrow> js_number" where
  "parseFloat d = to_double (decimal_value d)"

text \<open>Product and sum of a number with a positive finite double.\<close>

definition js_times :: "js_number \<Rightarrow> rat \<Rightarrow> js_number" where
  "js_times a b = (case a of Finite x \<Rightarrow> to_double (x * b) | Infinity \<Rightarrow> Infinity)"

definition js_plus :: "js_number \<Rightarrow> rat \<Rightarrow> js_number" where
  "js_plus a b = (case a of Finite x \<Rightarrow> to_double (x + b) | Infinity \<Rightarrow> Infinity)"

section \<open>The retry loop\<close>

definition maxRetries :: nat where
  "maxRetries = 5"

definition maxToolCalls :: nat where
  "maxToolCalls = 5"

definition pattern_503 :: string where
  "pattern_503 = code_colon @ ''503''"

text \<open>\<^verbatim>\<open>delay(ms)\<close>: the wait is recorded.\<close>

definition delay :: "js_number \<Rightarrow> Trace \<Rightarrow> Trace" where
  "delay ms t = t\<lparr>delays := delays t @ [ms]\<rparr>"

text \<open>
  The first part of the catch block of the retry loop: \<^verbatim>\<open>shouldRetry\<close> and \<^verbatim>\<open>retryDelayMs\<close>
  for a thrown value and the current backoff.
\<close>

definition classify :: "thrown \<Rightarrow> rat \<Rightarrow> bool \<times> js_number" where
  "classify error currentDelay =
     (case error of
        Error msg \<Rightarrow>
          if statusCode msg = 503 then (True, Finite currentDelay)
          else if statusCode msg = 429 then
            (True, case match_retry msg of
                     Some d \<Rightarrow> js_plus (js_times (parseFloat d) 1000) 500
                   | None \<Rightarrow> Finite currentDelay)
          else (False, Finite currentDelay)
      | NonError \<Rightarrow> (False, Finite currentDelay))"

text \<open>
  The backoff after a retry: doubled when the message includes \<^verbatim>\<open>code":503\<close>. (The branch
  is only reached with \<^verbatim>\<open>shouldRetry\<close>, so the thrown value is an \<^verbatim>\<open>Error\<close>.)
\<close>

definition next_delay :: "thrown \<Rightarrow> rat \<Rightarrow> rat" where
  "next_delay error currentDelay =
     (case error of
        Error msg \<Rightarrow> if includes_js msg pattern_503 then currentDelay * 2 else currentDelay
      | NonError \<Rightarrow> currentDelay)"

text \<open>
  \<^verbatim>\<open>for (let attempt = 0; attempt < maxRetries; attempt++)\<close> with its try and catch. The result
  is the thrown value, or \<^verbatim>\<open>response\<close>, which is still undefined if the loop ends by its
  condition.
\<close>

function retry_loop ::
  "Env \<Rightarrow> Content list \<Rightarrow> nat \<Rightarrow> rat \<Rightarrow> Trace \<Rightarrow> (thrown + Response option) \<times> Trace" where
  "retry_loop env contents attempt currentDelay t =
     (if attempt < maxRetries then
        (case generateContent env (calls t) contents of
           Inr response \<Rightarrow> (Inr (Some response), t\<lparr>calls := calls t + 1\<rparr>)
         | Inl error \<Rightarrow>
             if fst (classify error currentDelay) \<and> attempt < maxRetries - 1 then
               retry_loop env contents (attempt + 1) (next_delay error currentDelay)
                 (delay (snd (classify error currentDelay)) (t\<lparr>calls := calls t + 1\<rparr>))
             else (Inl error, t\<lparr>calls := calls t + 1\<rparr>))
      else (Inr None, t))"
  by pat_completeness auto
termination
  by (relation "measure (\<lambda>(env, contents, attempt, currentDelay, t). maxRetries - attempt)") auto

declare retry_loop.simps [simp del]

section \<open>The search tool\<close>

definition formatSearchResults :: "RawItem list \<Rightarrow> SearchResult list" where
  "formatSearchResults searchResults =
     map (\<lambda>item. \<lparr>title = raw_title item, snippet = raw_snippet item, link = raw_link item\<rparr>)
       searchResults"

text \<open>
  \<^verbatim>\<open>googleSearch(query)\<close>: a failure of the search service is caught and becomes a payload, so
  the function always returns.
\<close>

definition googleSearch :: "Env \<Rightarrow> string option \<Rightarrow> Trace \<Rightarrow> ToolResult \<times> Trace" where
  "googleSearch env q t =
     ((case cse_list env (length (searches t)) q of
         Some items \<Rightarrow>
           if length (formatSearchResults items) = 0 then
             \<lparr>query = q, search_snippet = SNIPPET_NOT_FOUND\<rparr>
           else
             \<lparr>query = q,
              search_snippet = SNIPPET_EXCERPT @ JSON_stringify env (formatSearchResults items)\<rparr>
       | None \<Rightarrow> \<lparr>query = q, search_snippet = SNIPPET_ERROR\<rparr>),
      t\<lparr>searches := searches t @ [q]\<rparr>)"

section \<open>The tool-calling loop\<close>

definition tool_name :: string where
  "tool_name = ''googleSearch''"

text \<open>\<^verbatim>\<open>response?.functionCalls?.[0]\<close>\<close>

definition first_call :: "Response option \<Rightarrow> FunctionCall option" where
  "first_call response =
     (case response of
        None \<Rightarrow> None
      | Some r \<Rightarrow> (case functionCalls r of [] \<Rightarrow> None | call # _ \<Rightarrow> Some call))"

text \<open>\<^verbatim>\<open>response?.candidates?.[0]?.content\<close>\<close>

definition first_content :: "Response option \<Rightarrow> Content option" where
  "first_content response = (case response of None \<Rightarrow> None | Some r \<Rightarrow> candidate_content r)"

text \<open>The turn that carries the tool's result back to the model.\<close>

definition function_turn :: "ToolResult \<Rightarrow> Content" where
  "function_turn toolResult =
     \<lparr>crole = ''function'', parts = [FunctionResponsePart tool_name (search_snippet toolResult)]\<rparr>"

text \<open>The message of \<^verbatim>\<open>new Error(`Unknown function call: ${functionName}`)\<close>.\<close>

definition unknown_function_call :: "string option \<Rightarrow> thrown" where
  "unknown_function_call functionName =
     Error (''Unknown function call: ''
            @ (case functionName of Some n \<Rightarrow> n | None \<Rightarrow> ''undefined''))"

text \<open>
  One pass through the body of the tool loop, after the check at its top: it throws, or
  leaves the loop with \<^verbatim>\<open>fullResponse\<close>, or goes on with the grown conversation.
\<close>

datatype Round =
  Throws thrown Trace
  | Breaks "Response option" Trace
  | Continues "Response option" "Content list" Trace

definition round_body :: "Env \<Rightarrow> Content list \<Rightarrow> Trace \<Rightarrow> Round" where
  "round_body env contents t =
     (case retry_loop env contents 0 2000 t of
        (Inl error, t1) \<Rightarrow> Throws error t1
      | (Inr response, t1) \<Rightarrow>
          (case first_call response of
             None \<Rightarrow> Breaks response t1
           | Some call \<Rightarrow>
               if name call = Some tool_name then
                 (case args call of
                    None \<Rightarrow> Throws type_error t1
                  | Some q \<Rightarrow>
                      (case first_content response of
                         Some c \<Rightarrow>
                           Continues response
                             (contents @ [c, function_turn (fst (googleSearch env q t1))])
                             (snd (googleSearch env q t1))
                       | None \<Rightarrow> Breaks response (snd (googleSearch env q t1))))
               else Throws (unknown_function_call (name call)) t1))"

text \<open>
  \<^verbatim>\<open>for (let i = 0; i < maxToolCalls; i++)\<close>. The result is the thrown value or
  \<^verbatim>\<open>fullResponse\<close>, with the conversation sent to the model and the trace at that point.
\<close>

function tool_loop ::
  "Env \<Rightarrow> nat \<Rightarrow> Content list \<Rightarrow> nat \<Rightarrow> Response option \<Rightarrow> Trace
   \<Rightarrow> (thrown + Response option) \<times> Content list \<times> Trace" where
  "tool_loop env i contents contentsLength fullResponse t =
     (if i < maxToolCalls then
        if length contents > contentsLength \<or> \<not> i > 0 then
          (case round_body env contents t of
             Throws error t' \<Rightarrow> (Inl error, contents, t')
           | Breaks response t' \<Rightarrow> (Inr response, contents, t')
           | Continues response contents' t' \<Rightarrow>
               tool_loop env (i + 1) contents'
                 (if length contents > contentsLength then length contents else contentsLength)
                 response t')
        else (Inr fullResponse, contents, t)
      else (Inr fullResponse, contents, t))"
  by pat_completeness auto
termination
  by (relation "measure (\<lambda>(env, i, contents, contentsLength, fullResponse, t). maxToolCalls - i)")
     auto

declare tool_loop.simps [simp del]

section \<open>The request handler\<close>

text \<open>
  The outer catch block: the status and the message for a thrown value.
\<close>

definition map_error :: "thrown \<Rightarrow> Outcome" where
  "map_error error =
     (case error of
        Error msg \<Rightarrow>
          if statusCode msg = 503 then Json 503 (ErrorBody MSG_OVERLOADED)
          else if statusCode msg = 429 then Json 429 (ErrorBody MSG_QUOTA)
          else if includes_js msg ''API_KEY'' then Json 401 (ErrorBody MSG_AUTH)
          else if statusCode msg = 400 then Json 400 (ErrorBody MSG_INVALID)
          else Json 500 (ErrorBody MSG_SERVER)
      | NonError \<Rightarrow> Json 500 (ErrorBody MSG_UNEXPECTED))"

text \<open>\<^verbatim>\<open>!apiKey\<close>: the variable is unset or empty.\<close>

definition no_key :: "Env \<Rightarrow> bool" where
  "no_key env = (case GEMINI_API_KEY env of None \<Rightarrow> True | Some k \<Rightarrow> k = [])"

text \<open>\<^verbatim>\<open>global.chatHistoryMap.get(sessionId) || []\<close>\<close>

definition chatHistory :: "Store \<Rightarrow> string \<Rightarrow> History" where
  "chatHistory store sid = (case store sid of Some h \<Rightarrow> h | None \<Rightarrow> [])"

text \<open>\<^verbatim>\<open>messages[messages.length - 1]\<close>: undefined for an empty array.\<close>

definition currentMessage :: "Message list \<Rightarrow> Message option" where
  "currentMessage ms = (if ms = [] then None else Some (last ms))"

text \<open>
  \<^verbatim>\<open>chatHistory.map(msg => ...)\<close>: reading \<^verbatim>\<open>msg.role\<close> of an undefined entry throws a
  \<^verbatim>\<open>TypeError\<close>, here \<open>None\<close>.
\<close>

definition to_content :: "Message \<Rightarrow> Content" where
  "to_content msg =
     \<lparr>crole = (if role msg = RoleUser then ''user'' else ''model''),
      parts = [TextPart (content msg)]\<rparr>"

fun to_contents :: "History \<Rightarrow> Content list option" where
  "to_contents [] = Some []"
| "to_contents (None # h) = None"
| "to_contents (Some msg # h) =
     (case to_contents h of None \<Rightarrow> None | Some cs \<Rightarrow> Some (to_content msg # cs))"

text \<open>
  The message of the \<^verbatim>\<open>TypeError\<close> raised by \<^verbatim>\<open>msg.role\<close> on an undefined entry (V8's
  wording).
\<close>

definition role_type_error :: thrown where
  "role_type_error =
     Error (''Cannot read properties of undefined (reading '' @ [CHR 0x27] @ ''role''
            @ [CHR 0x27] @ '')'')"

text \<open>\<^verbatim>\<open>fullResponse?.text ?? `...`\<close>\<close>

definition reply_of :: "Response option \<Rightarrow> string" where
  "reply_of fullResponse =
     (case fullResponse of
        None \<Rightarrow> fallback_reply
      | Some r \<Rightarrow> (case response_text r of Some x \<Rightarrow> x | None \<Rightarrow> fallback_reply))"

text \<open>
  The array \<^verbatim>\<open>contents\<close> with which the tool loop starts: the stored history of the
  session, followed by the current message, converted turn by turn.
\<close>

definition contents_of :: "Store \<Rightarrow> Request \<Rightarrow> Content list option" where
  "contents_of store req =
     to_contents (chatHistory store (sessionId req) @ [currentMessage (messages req)])"

text \<open>
  \<^verbatim>\<open>POST\<close>: the outcome, the session store afterwards and the trace. The system prompt
  (\<^verbatim>\<open>generateSystemPrompt\<close>, taken to return) is only handed to the model, so it is part
  of \<open>generateContent\<close>.
\<close>

definition POST :: "Env \<Rightarrow> Store \<Rightarrow> Request \<Rightarrow> Outcome \<times> Store \<times> Trace" where
  "POST env store req =
     (if no_key env then (Json 500 (ErrorBody MSG_KEY_NOT_SET), store, trace0)
      else
        (let history = chatHistory store (sessionId req) @ [currentMessage (messages req)];
             store1 = store(sessionId req \<mapsto> history)
         in case contents_of store req of
              None \<Rightarrow> (Unhandled role_type_error, store1, trace0)
            | Some contents \<Rightarrow>
                (case tool_loop env 0 contents (length contents) None trace0 of
                   (Inr fullResponse, _, t) \<Rightarrow>
                     (Json 200 (MessageBody (reply_of fullResponse)),
                      store1(sessionId req \<mapsto>
                        history @ [Some \<lparr>role = RoleAssistant, content = reply_of fullResponse\<rparr>]),
                      t)
                 | (Inl error, _, t) \<Rightarrow> (map_error error, store1, t))))"


section \<open>Notions used in the statements\<close>

text \<open>
  The classification of both catch blocks: the thrown value is an \<^verbatim>\<open>Error\<close> and the status
  code read from its message is the given one.
\<close>

definition classified :: "thrown \<Rightarrow> nat \<Rightarrow> bool" where
  "classified error code =
     (case error of Error msg \<Rightarrow> statusCode msg = code | NonError \<Rightarrow> False)"

text \<open>
  A response that asks for the search tool and can be answered: its first function call
  names \<^verbatim>\<open>googleSearch\<close> with arguments, and the response carries the content that
  records the call.
\<close>

definition requests_search :: "Response \<Rightarrow> bool" where
  "requests_search r =
     (case functionCalls r of
        [] \<Rightarrow> False
      | call # _ \<Rightarrow>
          name call = Some tool_name \<and> args call \<noteq> None \<and> candidate_content r \<noteq> None)"

text \<open>
  What the SDK's getters guarantee of a response, as far as the handler depends on it:
  \<^verbatim>\<open>functionCalls\<close> is computed from the parts of \<^verbatim>\<open>candidates[0].content\<close>, so a response
  with a function call has that content.
\<close>

definition sdk_response :: "Response \<Rightarrow> bool" where
  "sdk_response r = (functionCalls r = [] \<or> candidate_content r \<noteq> None)"

text \<open>A request that did not end in a 200 response.\<close>

definition is_failure :: "Outcome \<Rightarrow> bool" where
  "is_failure outcome = (case outcome of Json status _ \<Rightarrow> status \<noteq> 200 | Unhandled _ \<Rightarrow> True)"

section \<open>Concrete inputs\<close>

definition dq :: string where
  "dq = [CHR 0x22]"

text \<open>\<^verbatim>\<open>{"error":{"code":503,"status":"UNAVAILABLE"}}\<close>\<close>

definition msg_503 :: string where
  "msg_503 = ''{'' @ dq @ ''error'' @ dq @ '':{'' @ dq @ code_colon @ ''503,'' @ dq @ ''status''
             @ dq @ '':'' @ dq @ ''UNAVAILABLE'' @ dq @ ''}}''"

text \<open>\<^verbatim>\<open>{"error":{"code":429,"status":"RESOURCE_EXHAUSTED"}}\<close>\<close>

definition msg_429 :: string where
  "msg_429 = ''{'' @ dq @ ''error'' @ dq @ '':{'' @ dq @ code_colon @ ''429,'' @ dq @ ''status''
             @ dq @ '':'' @ dq @ ''RESOURCE_EXHAUSTED'' @ dq @ ''}}''"

text \<open>\<^verbatim>\<open>{"error":{"code":429,"message":"Please retry in 2.5s."}}\<close>\<close>

definition msg_429_advised :: string where
  "msg_429_advised = ''{'' @ dq @ ''error'' @ dq @ '':{'' @ dq @ code_colon @ ''429,'' @ dq
             @ ''message'' @ dq @ '':'' @ dq @ ''Please retry in 2.5s.'' @ dq @ ''}}''"

text \<open>
  A rate-limit error that also reports an overloaded backend:
  \<^verbatim>\<open>[{"error":{"code":429,"status":"RESOURCE_EXHAUSTED"}},{"error":{"code":503,"status":"UNAVAILABLE"}}]\<close>
\<close>

definition msg_429_then_503 :: string where
  "msg_429_then_503 = ''['' @ msg_429 @ '','' @ msg_503 @ '']''"

text \<open>
  \<^verbatim>\<open>[{"error":{"code":429,"message":"Please retry in 2.5s."}},{"error":{"code":503,"status":"UNAVAILABLE"}}]\<close>
\<close>

definition msg_429_advised_then_503 :: string where
  "msg_429_advised_then_503 = ''['' @ msg_429_advised @ '','' @ msg_503 @ '']''"

text \<open>\<^verbatim>\<open>{"error":{"code":0503}}\<close>: the status code written with a leading zero.\<close>

definition msg_0503 :: string where
  "msg_0503 = ''{'' @ dq @ ''error'' @ dq @ '':{'' @ dq @ code_colon @ ''0503}}''"

text \<open>
  \<^verbatim>\<open>{"error":{"code":400,"message":"API key not valid.","reason":"API_KEY_INVALID"}}\<close>
\<close>

definition msg_key_invalid :: string where
  "msg_key_invalid = ''{'' @ dq @ ''error'' @ dq @ '':{'' @ dq @ code_colon @ ''400,'' @ dq
             @ ''message'' @ dq @ '':'' @ dq @ ''API key not valid.'' @ dq @ '','' @ dq
             @ ''reason'' @ dq @ '':'' @ dq @ ''API_KEY_INVALID'' @ dq @ ''}}''"

text \<open>A plain answer.\<close>

definition r_hello :: Response where
  "r_hello =
     \<lparr>functionCalls = [],
      candidate_content = Some \<lparr>crole = ''model'', parts = [TextPart ''Hello!'']\<rparr>,
      response_text = Some ''Hello!''\<rparr>"

text \<open>A response with no candidate, so with neither a function call nor text.\<close>

definition r_silent :: Response where
  "r_silent = \<lparr>functionCalls = [], candidate_content = None, response_text = None\<rparr>"

definition call_news :: FunctionCall where
  "call_news = \<lparr>name = Some ''googleSearch'', args = Some (Some ''news'')\<rparr>"

definition call_weather :: FunctionCall where
  "call_weather = \<lparr>name = Some ''googleSearch'', args = Some (Some ''weather'')\<rparr>"

definition c_news :: Content where
  "c_news = \<lparr>crole = ''model'', parts = [FunctionCallPart call_news]\<rparr>"

text \<open>A response that asks for a search and has no text, as a pure function-call turn.\<close>

definition r_search :: Response where
  "r_search =
     \<lparr>functionCalls = [call_news], candidate_content = Some c_news, response_text = None\<rparr>"

text \<open>A response that asks for a search and also has text.\<close>

definition c_chatty :: Content where
  "c_chatty =
     \<lparr>crole = ''model'',
      parts = [TextPart ''Let me look that up.'', FunctionCallPart call_news]\<rparr>"

definition r_search_chatty :: Response where
  "r_search_chatty =
     \<lparr>functionCalls = [call_news], candidate_content = Some c_chatty,
      response_text = Some ''Let me look that up.''\<rparr>"

text \<open>A response with two function calls.\<close>

definition c_two_calls :: Content where
  "c_two_calls =
     \<lparr>crole = ''model'', parts = [FunctionCallPart call_news, FunctionCallPart call_weather]\<rparr>"

definition r_two_calls :: Response where
  "r_two_calls =
     \<lparr>functionCalls = [call_news, call_weather], candidate_content = Some c_two_calls,
      response_text = None\<rparr>"

text \<open>A response that names a tool the handler does not have.\<close>

definition call_unknown :: FunctionCall where
  "call_unknown = \<lparr>name = Some ''getWeather'', args = Some (Some ''Tokyo'')\<rparr>"

definition r_unknown :: Response where
  "r_unknown =
     \<lparr>functionCalls = [call_unknown],
      candidate_content = Some \<lparr>crole = ''model'', parts = [FunctionCallPart call_unknown]\<rparr>,
      response_text = None\<rparr>"

text \<open>
  An environment with a key, a model that answers the n-th call by a script, a search
  service that finds nothing and a serialiser that is never reached.
\<close>

definition env_script :: "(nat \<Rightarrow> thrown + Response) \<Rightarrow> Env" where
  "env_script script =
     \<lparr>GEMINI_API_KEY = Some ''key'', generateContent = (\<lambda>n contents. script n),
      cse_list = (\<lambda>n q. Some []), JSON_stringify = (\<lambda>results. [])\<rparr>"

text \<open>
  A model that answers its first call only when it is sent exactly the given conversation,
  and throws otherwise.
\<close>

definition env_picky :: "Content list \<Rightarrow> Env" where
  "env_picky expected =
     \<lparr>GEMINI_API_KEY = Some ''key'',
      generateContent =
        (\<lambda>n contents. if n = 0 \<and> contents \<noteq> expected then Inl NonError else Inr r_hello),
      cse_list = (\<lambda>n q. Some []), JSON_stringify = (\<lambda>results. [])\<rparr>"

definition env_no_key :: Env where
  "env_no_key = (env_script (\<lambda>n. Inr r_hello))\<lparr>GEMINI_API_KEY := None\<rparr>"

definition req_hello :: Request where
  "req_hello = \<lparr>messages = [\<lparr>role = RoleUser, content = ''hello''\<rparr>], sessionId = ''s1''\<rparr>"

definition req_resent :: Request where
  "req_resent =
     \<lparr>messages = [\<lparr>role = RoleUser, content = ''earlier''\<rparr>,
                  \<lparr>role = RoleAssistant, content = ''made up''\<rparr>,
                  \<lparr>role = RoleUser, content = ''hello''\<rparr>],
      sessionId = ''s1''\<rparr>"

definition c_hello :: Content where
  "c_hello = \<lparr>crole = ''user'', parts = [TextPart ''hello'']\<rparr>"

definition store_s1 :: Store where
  "store_s1 = [''s1'' \<mapsto> [Some \<lparr>role = RoleUser, content = ''hi''\<rparr>,
                            Some \<lparr>role = RoleAssistant, content = ''Hi there''\<rparr>]]"

section \<open>The advised delay of 2.5 seconds\<close>

lemma decimal_2_5: "decimal_value (''2'', ''5'') = 5 / 2"
  by (simp add: decimal_value_def parseInt_def digit_val_def)

lemma to_double_5_2: "to_double (5 / 2) = Finite (5 / 2)"
proof -
  have q: "quotient_of (5 / 2) = (5, 2)"
    by code_simp
  have b: "bit_length 5 = 3" "bit_length 2 = 2"
    by (simp_all add: bit_length.simps)
  show ?thesis
    by (simp add: to_double_def exponent_def q b pow2_def round_half_even_def Let_def)
qed

lemma to_double_2500: "to_double 2500 = Finite 2500"
proof -
  have b: "bit_length 2500 = 12" "bit_length (Suc 0) = Suc 0"
    by (simp_all add: bit_length.simps)
  show ?thesis
    by (simp add: to_double_def exponent_def b pow2_def round_half_even_def Let_def)
qed

lemma to_double_3000: "to_double 3000 = Finite 3000"
proof -
  have b: "bit_length 3000 = 12" "bit_length (Suc 0) = Suc 0"
    by (simp_all add: bit_length.simps)
  show ?thesis
    by (simp add: to_double_def exponent_def b pow2_def round_half_even_def Let_def)
qed

lemma advised_2_5: "js_plus (js_times (parseFloat (''2'', ''5'')) 1000) 500 = Finite 3000"
  by (simp add: parseFloat_def decimal_2_5 to_double_5_2 js_times_def to_double_2500
      js_plus_def to_double_3000)

section \<open>Properties of the retry loop\<close>

lemma shouldRetry_iff:
  "fst (classify error currentDelay) = (classified error 503 \<or> classified error 429)"
  by (simp add: classify_def classified_def split: thrown.split)

lemma retry_loop_success:
  assumes "attempt < maxRetries"
    and "generateContent env (calls t) contents = Inr response"
  shows "retry_loop env contents attempt currentDelay t
         = (Inr (Some response), t\<lparr>calls := calls t + 1\<rparr>)"
  using assms by (simp add: retry_loop.simps)

lemma retry_loop_give_up:
  assumes "attempt < maxRetries"
    and "generateContent env (calls t) contents = Inl error"
    and "\<not> fst (classify error currentDelay) \<or> attempt = maxRetries - 1"
  shows "retry_loop env contents attempt currentDelay t = (Inl error, t\<lparr>calls := calls t + 1\<rparr>)"
  using assms by (subst retry_loop.simps) auto

lemma retry_loop_again:
  assumes "attempt < maxRetries - 1"
    and "generateContent env (calls t) contents = Inl error"
    and "fst (classify error currentDelay)"
  shows "retry_loop env contents attempt currentDelay t =
         retry_loop env contents (attempt + 1) (next_delay error currentDelay)
           (delay (snd (classify error currentDelay)) (t\<lparr>calls := calls t + 1\<rparr>))"
  using assms by (subst retry_loop.simps) auto

lemma retry_loop_calls_bound:
  "calls (snd (retry_loop env contents attempt currentDelay t))
   \<le> calls t + (maxRetries - attempt)"
proof (induction env contents attempt currentDelay t rule: retry_loop.induct)
  case (1 env contents attempt currentDelay t)
  show ?case
  proof (cases "attempt < maxRetries")
    case False
    then show ?thesis by (simp add: retry_loop.simps)
  next
    case True
    show ?thesis
    proof (cases "generateContent env (calls t) contents")
      case (Inr response)
      with True show ?thesis by (simp add: retry_loop_success)
    next
      case (Inl error)
      show ?thesis
      proof (cases "fst (classify error currentDelay) \<and> attempt < maxRetries - 1")
        case False
        with True Inl show ?thesis by (subst retry_loop.simps) auto
      next
        case again: True
        from "1.IH"[OF True Inl again]
        have "calls (snd (retry_loop env contents (attempt + 1) (next_delay error currentDelay)
                (delay (snd (classify error currentDelay)) (t\<lparr>calls := calls t + 1\<rparr>))))
              \<le> calls t + 1 + (maxRetries - (attempt + 1))"
          by (simp add: delay_def)
        with True Inl again show ?thesis
          by (simp add: retry_loop_again)
      qed
    qed
  qed
qed

text \<open>
  When every remaining attempt fails with a retryable error, the error of the last attempt
  is the result, after one wait per earlier attempt.
\<close>

lemma retry_loop_exhausted:
  "maxRetries - attempt = Suc n \<Longrightarrow>
   (\<forall>k\<le>n. \<exists>e. generateContent env (calls t + k) contents = Inl e
                  \<and> (classified e 503 \<or> classified e 429)) \<Longrightarrow>
   \<exists>e. generateContent env (calls t + n) contents = Inl e
       \<and> fst (retry_loop env contents attempt currentDelay t) = Inl e
       \<and> calls (snd (retry_loop env contents attempt currentDelay t)) = calls t + Suc n
       \<and> length (delays (snd (retry_loop env contents attempt currentDelay t)))
           = length (delays t) + n"
proof (induction n arbitrary: attempt currentDelay t)
  case 0
  then obtain e where e: "generateContent env (calls t) contents = Inl e"
    by auto
  from "0.prems"(1) have "attempt < maxRetries" "attempt = maxRetries - 1"
    by auto
  with e show ?case
    by (simp add: retry_loop_give_up)
next
  case (Suc m)
  from Suc.prems(2) obtain e0 where e0: "generateContent env (calls t) contents = Inl e0"
    and r0: "classified e0 503 \<or> classified e0 429"
    by (metis add.right_neutral le0)
  from Suc.prems(1) have lt: "attempt < maxRetries - 1"
    by simp
  define t1 where "t1 = delay (snd (classify e0 currentDelay)) (t\<lparr>calls := calls t + 1\<rparr>)"
  have c1: "calls t1 = calls t + 1" and d1: "length (delays t1) = length (delays t) + 1"
    by (simp_all add: t1_def delay_def)
  have step: "retry_loop env contents attempt currentDelay t =
              retry_loop env contents (attempt + 1) (next_delay e0 currentDelay) t1"
    unfolding t1_def using lt e0 r0 by (simp add: retry_loop_again shouldRetry_iff)
  have m: "maxRetries - (attempt + 1) = Suc m"
    using Suc.prems(1) by simp
  have rest: "\<forall>k\<le>m. \<exists>e. generateContent env (calls t1 + k) contents = Inl e
                \<and> (classified e 503 \<or> classified e 429)"
  proof (intro allI impI)
    fix k assume "k \<le> m"
    then have "Suc k \<le> Suc m" by simp
    with Suc.prems(2) have "\<exists>e. generateContent env (calls t + Suc k) contents = Inl e
                \<and> (classified e 503 \<or> classified e 429)"
      by blast
    then show "\<exists>e. generateContent env (calls t1 + k) contents = Inl e
                \<and> (classified e 503 \<or> classified e 429)"
      by (simp add: c1)
  qed
  from Suc.IH[OF m rest, of "next_delay e0 currentDelay"] show ?case
    by (simp add: step c1 d1)
qed

section \<open>Properties of the tool loop and of the handler\<close>

lemma tool_loop_round:
  assumes "i < maxToolCalls" and "length contents > contentsLength \<or> i = 0"
  shows "tool_loop env i contents contentsLength fullResponse t =
         (case round_body env contents t of
            Throws error t' \<Rightarrow> (Inl error, contents, t')
          | Breaks response t' \<Rightarrow> (Inr response, contents, t')
          | Continues response contents' t' \<Rightarrow>
              tool_loop env (i + 1) contents'
                (if length contents > contentsLength then length contents else contentsLength)
                response t')"
  using assms by (subst tool_loop.simps) auto

lemma tool_loop_done:
  "tool_loop env maxToolCalls contents contentsLength fullResponse t
   = (Inr fullResponse, contents, t)"
  by (subst tool_loop.simps) simp

lemma round_body_no_call:
  assumes "retry_loop env contents 0 2000 t = (Inr (Some response), t1)"
    and "functionCalls response = []"
  shows "round_body env contents t = Breaks (Some response) t1"
  using assms by (simp add: round_body_def first_call_def)

lemma round_body_unknown:
  assumes "retry_loop env contents 0 2000 t = (Inr (Some response), t1)"
    and "functionCalls response = call # others"
    and "name call \<noteq> Some tool_name"
  shows "round_body env contents t = Throws (unknown_function_call (name call)) t1"
  using assms by (simp add: round_body_def first_call_def)

lemma round_body_search:
  assumes "retry_loop env contents 0 2000 t = (Inr (Some response), t1)"
    and "functionCalls response = call # others"
    and "name call = Some tool_name"
    and "args call = Some q"
  shows "round_body env contents t =
         (case candidate_content response of
            Some c \<Rightarrow>
              Continues (Some response)
                (contents @ [c, function_turn (fst (googleSearch env q t1))])
                (snd (googleSearch env q t1))
          | None \<Rightarrow> Breaks (Some response) (snd (googleSearch env q t1)))"
  using assms by (simp add: round_body_def first_call_def first_content_def)

lemma POST_no_key:
  "no_key env \<Longrightarrow> POST env store req = (Json 500 (ErrorBody MSG_KEY_NOT_SET), store, trace0)"
  by (simp add: POST_def)

lemma POST_with_key:
  assumes "\<not> no_key env"
    and "contents_of store req = Some contents"
  shows "POST env store req =
         (case tool_loop env 0 contents (length contents) None trace0 of
            (Inr fullResponse, _, t) \<Rightarrow>
              (Json 200 (MessageBody (reply_of fullResponse)),
               store(sessionId req \<mapsto>
                 chatHistory store (sessionId req) @ [currentMessage (messages req)]
                 @ [Some \<lparr>role = RoleAssistant, content = reply_of fullResponse\<rparr>]),
               t)
          | (Inl error, _, t) \<Rightarrow>
              (map_error error,
               store(sessionId req \<mapsto>
                 chatHistory store (sessionId req) @ [currentMessage (messages req)]),
               t))"
  using assms by (simp add: POST_def Let_def split: prod.split sum.split)

lemma map_error_is_failure: "is_failure (map_error error)"
  by (simp add: map_error_def is_failure_def split: thrown.split)

lemma POST_crash:
  assumes "\<not> no_key env" and "contents_of store req = None"
  shows "POST env store req =
         (Unhandled role_type_error,
          store(sessionId req \<mapsto>
            chatHistory store (sessionId req) @ [currentMessage (messages req)]),
          trace0)"
  using assms by (simp add: POST_def Let_def)

lemma chatHistory_upd:
  "chatHistory (store(sid \<mapsto> h)) sid' = (if sid' = sid then h else chatHistory store sid')"
  by (simp add: chatHistory_def)

lemma to_contents_messages: "to_contents (map Some ms) = Some (map to_content ms)"
  by (induction ms) simp_all

section \<open>Claims about the retry loop\<close>

text \<open>
  Claim C7. An error of a model call that is classified neither as 503 nor as 429 leaves
  the retry loop at once: it is the result, the call is counted and no wait is recorded.
  From its first attempt the retry loop calls the model at most five times; when all five
  attempts fail with a 503 or 429 error, the error of the fifth attempt is the result,
  after four waits.
\<close>

theorem retry_budget_and_propagation:
  "(attempt < maxRetries \<and> generateContent env (calls t) contents = Inl error
      \<and> \<not> classified error 503 \<and> \<not> classified error 429
    \<longrightarrow> retry_loop env contents attempt currentDelay t
        = (Inl error, t\<lparr>calls := calls t + 1\<rparr>))
   \<and> calls (snd (retry_loop env contents 0 currentDelay t)) \<le> calls t + 5
   \<and> ((\<forall>k<5. \<exists>e. generateContent env (calls t + k) contents = Inl e
                   \<and> (classified e 503 \<or> classified e 429))
    \<longrightarrow> (\<exists>e. generateContent env (calls t + 4) contents = Inl e
           \<and> fst (retry_loop env contents 0 currentDelay t) = Inl e
           \<and> calls (snd (retry_loop env contents 0 currentDelay t)) = calls t + 5
           \<and> length (delays (snd (retry_loop env contents 0 currentDelay t)))
               = length (delays t) + 4))"
proof (intro conjI impI)
  assume "attempt < maxRetries \<and> generateContent env (calls t) contents = Inl error
      \<and> \<not> classified error 503 \<and> \<not> classified error 429"
  then show "retry_loop env contents attempt currentDelay t
        = (Inl error, t\<lparr>calls := calls t + 1\<rparr>)"
    by (simp add: retry_loop_give_up shouldRetry_iff)
next
  show "calls (snd (retry_loop env contents 0 currentDelay t)) \<le> calls t + 5"
    using retry_loop_calls_bound[of env contents 0 currentDelay t]
    by (simp add: maxRetries_def)
next
  assume all: "\<forall>k<5. \<exists>e. generateContent env (calls t + k) contents = Inl e
                   \<and> (classified e 503 \<or> classified e 429)"
  have "maxRetries - 0 = Suc 4"
    by (simp add: maxRetries_def)
  moreover from all have "\<forall>k\<le>4. \<exists>e. generateContent env (calls t + k) contents = Inl e
                   \<and> (classified e 503 \<or> classified e 429)"
    by simp
  ultimately show "\<exists>e. generateContent env (calls t + 4) contents = Inl e
           \<and> fst (retry_loop env contents 0 currentDelay t) = Inl e
           \<and> calls (snd (retry_loop env contents 0 currentDelay t)) = calls t + 5
           \<and> length (delays (snd (retry_loop env contents 0 currentDelay t)))
               = length (delays t) + 4"
    using retry_loop_exhausted[of 0 4 env t contents currentDelay] by simp
qed

theorem retry_budget_and_propagation_witness:
  "retry_loop (env_script (\<lambda>n. Inl (Error msg_key_invalid))) [] 0 2000 trace0
     = (Inl (Error msg_key_invalid), \<lparr>calls = 1, delays = [], searches = []\<rparr>)
   \<and> fst (retry_loop (env_script (\<lambda>n. Inl (Error msg_503))) [] 0 2000 trace0)
     = Inl (Error msg_503)
   \<and> calls (snd (retry_loop (env_script (\<lambda>n. Inl (Error msg_503))) [] 0 2000 trace0)) = 5
   \<and> length (delays (snd (retry_loop (env_script (\<lambda>n. Inl (Error msg_503))) [] 0 2000 trace0)))
     = 4"
proof -
  have a: "statusCode msg_key_invalid = 400" and b: "statusCode msg_503 = 503"
    by code_simp+
  have h1: "0 < maxRetries
      \<and> generateContent (env_script (\<lambda>n. Inl (Error msg_key_invalid))) (calls trace0) []
        = Inl (Error msg_key_invalid)
      \<and> \<not> classified (Error msg_key_invalid) 503 \<and> \<not> classified (Error msg_key_invalid) 429"
    by (simp add: maxRetries_def env_script_def classified_def a)
  have h2: "\<forall>k<5. \<exists>e. generateContent (env_script (\<lambda>n. Inl (Error msg_503))) (calls trace0 + k) []
                    = Inl e \<and> (classified e 503 \<or> classified e 429)"
    by (simp add: env_script_def classified_def b)
  from retry_budget_and_propagation[of 0 "env_script (\<lambda>n. Inl (Error msg_key_invalid))"
      trace0 "[]" "Error msg_key_invalid" 2000] h1
  have c1: "retry_loop (env_script (\<lambda>n. Inl (Error msg_key_invalid))) [] 0 2000 trace0
     = (Inl (Error msg_key_invalid), \<lparr>calls = 1, delays = [], searches = []\<rparr>)"
    by (simp add: trace0_def)
  from retry_budget_and_propagation[of 0 "env_script (\<lambda>n. Inl (Error msg_503))"
      trace0 "[]" NonError 2000] h2
  have c2: "\<exists>e. generateContent (env_script (\<lambda>n. Inl (Error msg_503))) (calls trace0 + 4) [] = Inl e
     \<and> fst (retry_loop (env_script (\<lambda>n. Inl (Error msg_503))) [] 0 2000 trace0) = Inl e
     \<and> calls (snd (retry_loop (env_script (\<lambda>n. Inl (Error msg_503))) [] 0 2000 trace0))
        = calls trace0 + 5
     \<and> length (delays (snd (retry_loop (env_script (\<lambda>n. Inl (Error msg_503))) [] 0 2000 trace0)))
        = length (delays trace0) + 4"
    by blast
  from c2 have c3: "fst (retry_loop (env_script (\<lambda>n. Inl (Error msg_503))) [] 0 2000 trace0)
     = Inl (Error msg_503)
     \<and> calls (snd (retry_loop (env_script (\<lambda>n. Inl (Error msg_503))) [] 0 2000 trace0)) = 5
     \<and> length (delays (snd (retry_loop (env_script (\<lambda>n. Inl (Error msg_503))) [] 0 2000 trace0)))
        = 4"
    by (auto simp add: env_script_def trace0_def)
  from c1 c3 show ?thesis by simp
qed

section \<open>Claims about the tool loop\<close>

text \<open>
  Claim C6. When the first function call of a model response names anything but
  \<^verbatim>\<open>googleSearch\<close>, the tool loop throws \<^verbatim>\<open>Unknown function call: name\<close> in that round,
  whatever the round's number below the budget: the conversation and the trace are those
  at the end of the model call, so no further call is made and nothing waits. In a request
  whose first response does so, the handler answers with the status of that error, which
  is not 200, and the stored history has grown by the current message only.
\<close>

theorem unknown_tool_aborts:
  "(i < maxToolCalls \<and> (length contents > contentsLength \<or> i = 0)
      \<and> retry_loop env contents 0 2000 t = (Inr (Some response), t1)
      \<and> functionCalls response = call # others \<and> name call \<noteq> Some tool_name
    \<longrightarrow> tool_loop env i contents contentsLength fullResponse t
        = (Inl (unknown_function_call (name call)), contents, t1))
   \<and> (\<not> no_key env \<and> contents_of store req = Some contents
      \<and> retry_loop env contents 0 2000 trace0 = (Inr (Some response), t1)
      \<and> functionCalls response = call # others \<and> name call \<noteq> Some tool_name
    \<longrightarrow> POST env store req
        = (map_error (unknown_function_call (name call)),
           store(sessionId req \<mapsto>
             chatHistory store (sessionId req) @ [currentMessage (messages req)]),
           t1)
      \<and> is_failure (fst (POST env store req)))"
proof (intro conjI impI)
  assume h: "i < maxToolCalls \<and> (length contents > contentsLength \<or> i = 0)
      \<and> retry_loop env contents 0 2000 t = (Inr (Some response), t1)
      \<and> functionCalls response = call # others \<and> name call \<noteq> Some tool_name"
  then have "round_body env contents t = Throws (unknown_function_call (name call)) t1"
    by (simp add: round_body_unknown)
  with h show "tool_loop env i contents contentsLength fullResponse t
        = (Inl (unknown_function_call (name call)), contents, t1)"
    by (simp add: tool_loop_round)
next
  assume h: "\<not> no_key env \<and> contents_of store req = Some contents
      \<and> retry_loop env contents 0 2000 trace0 = (Inr (Some response), t1)
      \<and> functionCalls response = call # others \<and> name call \<noteq> Some tool_name"
  then have "round_body env contents trace0 = Throws (unknown_function_call (name call)) t1"
    by (simp add: round_body_unknown)
  then have loop: "tool_loop env 0 contents (length contents) None trace0
        = (Inl (unknown_function_call (name call)), contents, t1)"
    by (simp add: tool_loop_round maxToolCalls_def)
  from h loop show post: "POST env store req
        = (map_error (unknown_function_call (name call)),
           store(sessionId req \<mapsto>
             chatHistory store (sessionId req) @ [currentMessage (messages req)]),
           t1)"
    by (simp add: POST_with_key)
  show "is_failure (fst (POST env store req))"
    by (simp add: post map_error_is_failure)
qed

theorem unknown_tool_aborts_witness:
  "tool_loop (env_script (\<lambda>n. Inr r_unknown)) 3 [c_hello, c_news] 1 (Some r_search) trace0
     = (Inl (Error ''Unknown function call: getWeather''), [c_hello, c_news],
        \<lparr>calls = 1, delays = [], searches = []\<rparr>)
   \<and> POST (env_script (\<lambda>n. Inr r_unknown)) Map.empty req_hello
     = (Json 500 (ErrorBody MSG_SERVER),
        [''s1'' \<mapsto> [Some \<lparr>role = RoleUser, content = ''hello''\<rparr>]],
        \<lparr>calls = 1, delays = [], searches = []\<rparr>)"
proof -
  let ?env = "env_script (\<lambda>n. Inr r_unknown)"
  let ?call = "\<lparr>name = Some ''getWeather'', args = Some (Some ''Tokyo'')\<rparr>"
  have r1: "retry_loop ?env [c_hello, c_news] 0 2000 trace0
            = (Inr (Some r_unknown), \<lparr>calls = 1, delays = [], searches = []\<rparr>)"
    by code_simp
  have r2: "retry_loop ?env [c_hello] 0 2000 trace0
            = (Inr (Some r_unknown), \<lparr>calls = 1, delays = [], searches = []\<rparr>)"
    by code_simp
  have k: "\<not> no_key ?env" by code_simp
  have c: "contents_of Map.empty req_hello = Some [c_hello]" by code_simp
  have f: "functionCalls r_unknown = ?call # []" by (simp add: r_unknown_def call_unknown_def)
  have n: "name ?call \<noteq> Some tool_name" by (simp add: tool_name_def)
  have e: "unknown_function_call (Some ''getWeather'')
           = Error ''Unknown function call: getWeather''"
    by (simp add: unknown_function_call_def)
  have m: "map_error (unknown_function_call (Some ''getWeather''))
           = Json 500 (ErrorBody MSG_SERVER)"
    by code_simp
  have h: "chatHistory Map.empty ''s1'' = []"
    "currentMessage (messages req_hello) = Some \<lparr>role = RoleUser, content = ''hello''\<rparr>"
    by (simp_all add: chatHistory_def req_hello_def currentMessage_def)
  have s: "sessionId req_hello = ''s1''" by (simp add: req_hello_def)
  from unknown_tool_aborts[where i = 3 and contents = "[c_hello, c_news]" and contentsLength = 1
      and env = ?env and t = trace0 and response = r_unknown and call = ?call and others = "[]"
      and ?t1.0 = "\<lparr>calls = 1, delays = [], searches = []\<rparr>" and fullResponse = "Some r_search"]
    r1 f n
  have a: "tool_loop ?env 3 [c_hello, c_news] 1 (Some r_search) trace0
     = (Inl (unknown_function_call (name ?call)), [c_hello, c_news],
        \<lparr>calls = 1, delays = [], searches = []\<rparr>)"
    by (simp add: maxToolCalls_def)
  from unknown_tool_aborts[where contents = "[c_hello]" and i = 0 and contentsLength = 0
      and env = ?env and store = Map.empty and req = req_hello
      and response = r_unknown and call = ?call and others = "[]"
      and ?t1.0 = "\<lparr>calls = 1, delays = [], searches = []\<rparr>"]
    k c r2 f n
  have b: "POST ?env Map.empty req_hello
        = (map_error (unknown_function_call (name ?call)),
           Map.empty(sessionId req_hello \<mapsto>
             chatHistory Map.empty (sessionId req_hello) @ [currentMessage (messages req_hello)]),
           \<lparr>calls = 1, delays = [], searches = []\<rparr>)"
    by blast
  from a b show ?thesis
    by (simp add: m h s) (simp add: e)
qed

text \<open>
  Claim C8. When the first function call of a response of the SDK names \<^verbatim>\<open>googleSearch\<close>
  and has arguments, the search runs once, with the query of that first call; the other
  calls of the response are not looked at. The response has a candidate content, and the
  round goes on with the conversation grown by exactly two turns: that content, which is
  the model's record of the call, and then the function turn with the search payload. The
  next round of the tool loop starts from this conversation.
\<close>

theorem first_call_dispatched:
  "retry_loop env contents 0 2000 t = (Inr (Some response), t1) \<and> sdk_response response
     \<and> functionCalls response = call # others
     \<and> name call = Some tool_name \<and> args call = Some q
   \<longrightarrow> (\<exists>c. candidate_content response = Some c
         \<and> round_body env contents t
           = Continues (Some response)
               (contents @ [c, \<lparr>crole = ''function'',
                                parts = [FunctionResponsePart tool_name
                                           (search_snippet (fst (googleSearch env q t1)))]\<rparr>])
               (t1\<lparr>searches := searches t1 @ [q]\<rparr>)
         \<and> (i < maxToolCalls \<and> (length contents > contentsLength \<or> i = 0)
            \<longrightarrow> tool_loop env i contents contentsLength fullResponse t
                = tool_loop env (i + 1)
                    (contents @ [c, \<lparr>crole = ''function'',
                                     parts = [FunctionResponsePart tool_name
                                                (search_snippet (fst (googleSearch env q t1)))]\<rparr>])
                    (if length contents > contentsLength then length contents
                     else contentsLength)
                    (Some response) (t1\<lparr>searches := searches t1 @ [q]\<rparr>)))"
proof (intro impI)
  assume h: "retry_loop env contents 0 2000 t = (Inr (Some response), t1)
     \<and> sdk_response response \<and> functionCalls response = call # others
     \<and> name call = Some tool_name \<and> args call = Some q"
  then obtain c where c: "candidate_content response = Some c"
    by (auto simp add: sdk_response_def)
  let ?turn = "\<lparr>crole = ''function'',
                parts = [FunctionResponsePart tool_name
                           (search_snippet (fst (googleSearch env q t1)))]\<rparr>"
  from h c have round: "round_body env contents t
      = Continues (Some response) (contents @ [c, ?turn]) (t1\<lparr>searches := searches t1 @ [q]\<rparr>)"
    by (simp add: round_body_search function_turn_def googleSearch_def)
  have "tool_loop env i contents contentsLength fullResponse t
        = tool_loop env (i + 1) (contents @ [c, ?turn])
            (if length contents > contentsLength then length contents else contentsLength)
            (Some response) (t1\<lparr>searches := searches t1 @ [q]\<rparr>)"
    if "i < maxToolCalls \<and> (length contents > contentsLength \<or> i = 0)"
    using that by (simp add: tool_loop_round round)
  with c round show "\<exists>c. candidate_content response = Some c
         \<and> round_body env contents t
           = Continues (Some response) (contents @ [c, ?turn])
               (t1\<lparr>searches := searches t1 @ [q]\<rparr>)
         \<and> (i < maxToolCalls \<and> (length contents > contentsLength \<or> i = 0)
            \<longrightarrow> tool_loop env i contents contentsLength fullResponse t
                = tool_loop env (i + 1) (contents @ [c, ?turn])
                    (if length contents > contentsLength then length contents
                     else contentsLength)
                    (Some response) (t1\<lparr>searches := searches t1 @ [q]\<rparr>))"
    by blast
qed

theorem first_call_dispatched_witness:
  "round_body (env_script (\<lambda>n. Inr r_two_calls)) [c_hello] trace0
     = Continues (Some r_two_calls)
         [c_hello, c_two_calls,
          \<lparr>crole = ''function'', parts = [FunctionResponsePart ''googleSearch'' SNIPPET_NOT_FOUND]\<rparr>]
         \<lparr>calls = 1, delays = [], searches = [Some ''news'']\<rparr>"
proof -
  let ?env = "env_script (\<lambda>n. Inr r_two_calls)"
  let ?t1 = "\<lparr>calls = 1, delays = [], searches = []\<rparr>"
  have r1: "retry_loop ?env [c_hello] 0 2000 trace0 = (Inr (Some r_two_calls), ?t1)"
    by code_simp
  have s: "sdk_response r_two_calls"
    by (simp add: sdk_response_def r_two_calls_def)
  have f1: "functionCalls r_two_calls = call_news # [call_weather]"
    and n: "name call_news = Some tool_name" and q: "args call_news = Some (Some ''news'')"
    and c1: "candidate_content r_two_calls = Some c_two_calls"
    by (simp_all add: r_two_calls_def call_news_def tool_name_def)
  have g: "\<And>t. search_snippet (fst (googleSearch ?env (Some ''news'') t)) = SNIPPET_NOT_FOUND"
    by (simp add: googleSearch_def env_script_def formatSearchResults_def)
  from first_call_dispatched[where env = ?env and contents = "[c_hello]" and t = trace0
      and response = r_two_calls and ?t1.0 = ?t1 and call = call_news
      and others = "[call_weather]" and q = "Some ''news''"]
    r1 s f1 n q
  obtain c where "candidate_content r_two_calls = Some c"
    and "round_body ?env [c_hello] trace0
        = Continues (Some r_two_calls)
            ([c_hello] @ [c, \<lparr>crole = ''function'',
               parts = [FunctionResponsePart tool_name
                 (search_snippet (fst (googleSearch ?env (Some ''news'') ?t1)))]\<rparr>])
            (?t1\<lparr>searches := searches ?t1 @ [Some ''news'']\<rparr>)"
    by blast
  with c1 show ?thesis
    by (simp add: g tool_name_def)
qed

text \<open>
  Claim C5, as amended. When the model's first response of a request carries no function
  call, the tool loop ends in its first round, with the conversation unchanged and the
  trace of that one model call; the handler answers 200 with the response's text, or with
  the fixed fallback reply when the response has no text, and stores that reply as the
  assistant's turn.
\<close>

theorem no_tool_call_one_round:
  "\<not> no_key env \<and> contents_of store req = Some contents
     \<and> retry_loop env contents 0 2000 trace0 = (Inr (Some response), t1)
     \<and> functionCalls response = []
   \<longrightarrow> tool_loop env 0 contents (length contents) None trace0
       = (Inr (Some response), contents, t1)
     \<and> POST env store req
       = (Json 200 (MessageBody
            (case response_text response of Some x \<Rightarrow> x | None \<Rightarrow> fallback_reply)),
          store(sessionId req \<mapsto>
            chatHistory store (sessionId req) @ [currentMessage (messages req)]
            @ [Some \<lparr>role = RoleAssistant,
                     content = (case response_text response of
                                  Some x \<Rightarrow> x | None \<Rightarrow> fallback_reply)\<rparr>]),
          t1)"
proof (intro impI)
  assume h: "\<not> no_key env \<and> contents_of store req = Some contents
     \<and> retry_loop env contents 0 2000 trace0 = (Inr (Some response), t1)
     \<and> functionCalls response = []"
  then have "round_body env contents trace0 = Breaks (Some response) t1"
    by (simp add: round_body_no_call)
  then have loop: "tool_loop env 0 contents (length contents) None trace0
       = (Inr (Some response), contents, t1)"
    by (simp add: tool_loop_round maxToolCalls_def)
  from h loop show "tool_loop env 0 contents (length contents) None trace0
       = (Inr (Some response), contents, t1)
     \<and> POST env store req
       = (Json 200 (MessageBody
            (case response_text response of Some x \<Rightarrow> x | None \<Rightarrow> fallback_reply)),
          store(sessionId req \<mapsto>
            chatHistory store (sessionId req) @ [currentMessage (messages req)]
            @ [Some \<lparr>role = RoleAssistant,
                     content = (case response_text response of
                                  Some x \<Rightarrow> x | None \<Rightarrow> fallback_reply)\<rparr>]),
          t1)"
    by (simp add: POST_with_key reply_of_def)
qed

theorem no_tool_call_one_round_witness:
  "tool_loop (env_script (\<lambda>n. Inr r_hello)) 0 [c_hello] (length [c_hello]) None trace0
     = (Inr (Some r_hello), [c_hello], \<lparr>calls = 1, delays = [], searches = []\<rparr>)
   \<and> POST (env_script (\<lambda>n. Inr r_hello)) Map.empty req_hello
     = (Json 200 (MessageBody ''Hello!''),
        [''s1'' \<mapsto> [Some \<lparr>role = RoleUser, content = ''hello''\<rparr>,
                       Some \<lparr>role = RoleAssistant, content = ''Hello!''\<rparr>]],
        \<lparr>calls = 1, delays = [], searches = []\<rparr>)"
proof -
  let ?env = "env_script (\<lambda>n. Inr r_hello)"
  have k: "\<not> no_key ?env" by code_simp
  have c: "contents_of Map.empty req_hello = Some [c_hello]" by code_simp
  have r: "retry_loop ?env [c_hello] 0 2000 trace0
           = (Inr (Some r_hello), \<lparr>calls = 1, delays = [], searches = []\<rparr>)"
    by code_simp
  have f: "functionCalls r_hello = []" and x: "response_text r_hello = Some ''Hello!''"
    by (simp_all add: r_hello_def)
  have h: "chatHistory Map.empty ''s1'' = []"
    "currentMessage (messages req_hello) = Some \<lparr>role = RoleUser, content = ''hello''\<rparr>"
    by (simp_all add: chatHistory_def req_hello_def currentMessage_def)
  have s: "sessionId req_hello = ''s1''" by (simp add: req_hello_def)
  from no_tool_call_one_round[where env = ?env and store = Map.empty and req = req_hello
      and contents = "[c_hello]" and response = r_hello
      and ?t1.0 = "\<lparr>calls = 1, delays = [], searches = []\<rparr>"] k c r f
  show ?thesis
    by (simp add: x h s)
qed

text \<open>
  Claim C5 as stated fails for a response with neither a function call nor text: the text
  returned to the caller is the fallback reply, which no response carried.
\<close>

theorem silent_response_gets_fallback:
  "functionCalls r_silent = [] \<and> response_text r_silent = None
   \<and> fst (POST (env_script (\<lambda>n. Inr r_silent)) Map.empty req_hello)
     = Json 200 (MessageBody fallback_reply)"
  by code_simp

text \<open>One round in which the model call succeeds at once and asks for a search.\<close>

lemma round_body_requests_search:
  assumes "generateContent env (calls t) contents = Inr r" and "requests_search r"
  shows "\<exists>c turn q. round_body env contents t
           = Continues (Some r) (contents @ [c, turn])
               (t\<lparr>calls := calls t + 1, searches := searches t @ [q]\<rparr>)"
proof -
  from assms(1) have retry: "retry_loop env contents 0 2000 t
      = (Inr (Some r), t\<lparr>calls := calls t + 1\<rparr>)"
    by (simp add: retry_loop_success maxRetries_def)
  from assms(2) obtain call others q c where
    "functionCalls r = call # others" "name call = Some tool_name" "args call = Some q"
    "candidate_content r = Some c"
    by (auto simp add: requests_search_def split: list.splits)
  with retry have "round_body env contents t
      = Continues (Some r)
          (contents @ [c, function_turn (fst (googleSearch env q (t\<lparr>calls := calls t + 1\<rparr>)))])
          (snd (googleSearch env q (t\<lparr>calls := calls t + 1\<rparr>)))"
    by (simp add: round_body_search)
  then have "round_body env contents t
      = Continues (Some r)
          (contents @ [c, function_turn (fst (googleSearch env q (t\<lparr>calls := calls t + 1\<rparr>)))])
          (t\<lparr>calls := calls t + 1, searches := searches t @ [q]\<rparr>)"
    by (simp add: googleSearch_def)
  then show ?thesis
    by blast
qed

text \<open>
  With a model that always asks for a search, the tool loop runs until its budget is used
  up; its result is the response to the last call.
\<close>

lemma tool_loop_always_search:
  "(\<forall>n cs. \<exists>r. generateContent env n cs = Inr r \<and> requests_search r) \<Longrightarrow>
   maxToolCalls - i = Suc k \<Longrightarrow> contentsLength \<le> length contents \<Longrightarrow>
   length contents > contentsLength \<or> i = 0 \<Longrightarrow>
   \<exists>cs r cs' t'. tool_loop env i contents contentsLength fullResponse t = (Inr (Some r), cs', t')
      \<and> generateContent env (calls t + k) cs = Inr r
      \<and> length cs = length contents + 2 * k
      \<and> length cs' = length contents + 2 * Suc k
      \<and> calls t' = calls t + Suc k \<and> delays t' = delays t
      \<and> length (searches t') = length (searches t) + Suc k"
proof (induction k arbitrary: i contents contentsLength fullResponse t)
  case 0
  from "0.prems"(1) obtain r where r: "generateContent env (calls t) contents = Inr r"
    and s: "requests_search r"
    by blast
  from round_body_requests_search[OF r s] obtain c turn q where
    round: "round_body env contents t
           = Continues (Some r) (contents @ [c, turn])
               (t\<lparr>calls := calls t + 1, searches := searches t @ [q]\<rparr>)"
    by blast
  from "0.prems"(2) have i: "i < maxToolCalls" "i + 1 = maxToolCalls"
    by simp_all
  have "tool_loop env i contents contentsLength fullResponse t
        = (Inr (Some r), contents @ [c, turn],
           t\<lparr>calls := calls t + 1, searches := searches t @ [q]\<rparr>)"
    using i "0.prems"(4) by (simp add: tool_loop_round round tool_loop_done)
  with r show ?case
    by auto
next
  case (Suc k)
  from Suc.prems(1) obtain r where r: "generateContent env (calls t) contents = Inr r"
    and s: "requests_search r"
    by blast
  from round_body_requests_search[OF r s] obtain c turn q where
    round: "round_body env contents t
           = Continues (Some r) (contents @ [c, turn])
               (t\<lparr>calls := calls t + 1, searches := searches t @ [q]\<rparr>)"
    by blast
  define t1 where "t1 = t\<lparr>calls := calls t + 1, searches := searches t @ [q]\<rparr>"
  define len where
    "len = (if length contents > contentsLength then length contents else contentsLength)"
  from Suc.prems(2) have i: "i < maxToolCalls" "maxToolCalls - (i + 1) = Suc k"
    by simp_all
  have step: "tool_loop env i contents contentsLength fullResponse t
        = tool_loop env (i + 1) (contents @ [c, turn]) len (Some r) t1"
    using i(1) Suc.prems(4) by (simp add: tool_loop_round round t1_def len_def)
  have le: "len \<le> length (contents @ [c, turn])"
    and gt: "length (contents @ [c, turn]) > len \<or> i + 1 = 0"
    using Suc.prems(3) by (simp_all add: len_def)
  from Suc.IH[OF Suc.prems(1) i(2) le gt, of "Some r" t1]
  obtain cs r' cs' t' where
    res: "tool_loop env (i + 1) (contents @ [c, turn]) len (Some r) t1 = (Inr (Some r'), cs', t')"
    and last: "generateContent env (calls t1 + k) cs = Inr r'"
    and l1: "length cs = length (contents @ [c, turn]) + 2 * k"
    and l2: "length cs' = length (contents @ [c, turn]) + 2 * Suc k"
    and tr: "calls t' = calls t1 + Suc k" "delays t' = delays t1"
      "length (searches t') = length (searches t1) + Suc k"
    by blast
  have "tool_loop env i contents contentsLength fullResponse t = (Inr (Some r'), cs', t')"
    using step res by simp
  moreover have "generateContent env (calls t + Suc k) cs = Inr r'"
    using last by (simp add: t1_def)
  moreover have "length cs = length contents + 2 * Suc k"
    and "length cs' = length contents + 2 * Suc (Suc k)"
    using l1 l2 by simp_all
  moreover have "calls t' = calls t + Suc (Suc k)" "delays t' = delays t"
    "length (searches t') = length (searches t) + Suc (Suc k)"
    using tr by (simp_all add: t1_def)
  ultimately show ?case
    by blast
qed

text \<open>
  Claim C4, as amended. With the budget of five rounds and a model that answers every call
  with a request for \<^verbatim>\<open>googleSearch\<close> (with arguments and the content recording the call),
  the tool loop ends after five model calls and five searches, without a wait and without
  an error; the handler answers 200 with the text of the fifth response, or with the fixed
  fallback reply when that response has no text.
\<close>

theorem budget_exhausted_returns_last:
  "\<not> no_key env \<and> contents_of store req = Some contents
     \<and> (\<forall>n cs. \<exists>r. generateContent env n cs = Inr r \<and> requests_search r)
   \<longrightarrow> (\<exists>cs r t.
         generateContent env 4 cs = Inr r \<and> length cs = length contents + 8
         \<and> calls t = 5 \<and> delays t = [] \<and> length (searches t) = 5
         \<and> POST env store req
           = (Json 200 (MessageBody
                (case response_text r of Some x \<Rightarrow> x | None \<Rightarrow> fallback_reply)),
              store(sessionId req \<mapsto>
                chatHistory store (sessionId req) @ [currentMessage (messages req)]
                @ [Some \<lparr>role = RoleAssistant,
                         content = (case response_text r of
                                      Some x \<Rightarrow> x | None \<Rightarrow> fallback_reply)\<rparr>]),
              t))"
proof (intro impI)
  assume h: "\<not> no_key env \<and> contents_of store req = Some contents
     \<and> (\<forall>n cs. \<exists>r. generateContent env n cs = Inr r \<and> requests_search r)"
  then have all: "\<forall>n cs. \<exists>r. generateContent env n cs = Inr r \<and> requests_search r"
    by blast
  have "maxToolCalls - 0 = Suc 4"
    by (simp add: maxToolCalls_def)
  from tool_loop_always_search[OF all this, of "length contents" contents None trace0]
  obtain cs r cs' t where
    loop: "tool_loop env 0 contents (length contents) None trace0 = (Inr (Some r), cs', t)"
    and last: "generateContent env (calls trace0 + 4) cs = Inr r"
    and len: "length cs = length contents + 2 * 4"
    and tr: "calls t = calls trace0 + Suc 4" "delays t = delays trace0"
      "length (searches t) = length (searches trace0) + Suc 4"
    by auto
  have post: "POST env store req
           = (Json 200 (MessageBody
                (case response_text r of Some x \<Rightarrow> x | None \<Rightarrow> fallback_reply)),
              store(sessionId req \<mapsto>
                chatHistory store (sessionId req) @ [currentMessage (messages req)]
                @ [Some \<lparr>role = RoleAssistant,
                         content = (case response_text r of
                                      Some x \<Rightarrow> x | None \<Rightarrow> fallback_reply)\<rparr>]),
              t)"
    using h loop by (simp add: POST_with_key reply_of_def)
  from last len tr have "generateContent env 4 cs = Inr r \<and> length cs = length contents + 8
         \<and> calls t = 5 \<and> delays t = [] \<and> length (searches t) = 5"
    by (simp add: trace0_def)
  with post show "\<exists>cs r t.
         generateContent env 4 cs = Inr r \<and> length cs = length contents + 8
         \<and> calls t = 5 \<and> delays t = [] \<and> length (searches t) = 5
         \<and> POST env store req
           = (Json 200 (MessageBody
                (case response_text r of Some x \<Rightarrow> x | None \<Rightarrow> fallback_reply)),
              store(sessionId req \<mapsto>
                chatHistory store (sessionId req) @ [currentMessage (messages req)]
                @ [Some \<lparr>role = RoleAssistant,
                         content = (case response_text r of
                                      Some x \<Rightarrow> x | None \<Rightarrow> fallback_reply)\<rparr>]),
              t)"
    by blast
qed

theorem budget_exhausted_returns_last_witness:
  "fst (POST (env_script (\<lambda>n. Inr r_search_chatty)) Map.empty req_hello)
     = Json 200 (MessageBody ''Let me look that up.'')
   \<and> calls (snd (snd (POST (env_script (\<lambda>n. Inr r_search_chatty)) Map.empty req_hello))) = 5"
proof -
  let ?env = "env_script (\<lambda>n. Inr r_search_chatty)"
  have k: "\<not> no_key ?env" by code_simp
  have c: "contents_of Map.empty req_hello = Some [c_hello]" by code_simp
  have s: "requests_search r_search_chatty" by code_simp
  have a: "\<forall>n cs. \<exists>r. generateContent ?env n cs = Inr r \<and> requests_search r"
    using s by (simp add: env_script_def)
  from budget_exhausted_returns_last[where env = ?env and store = Map.empty
      and req = req_hello and contents = "[c_hello]"] k c a
  obtain cs r t where r: "generateContent ?env 4 cs = Inr r" and t: "calls t = 5"
    and post: "POST ?env Map.empty req_hello
           = (Json 200 (MessageBody
                (case response_text r of Some x \<Rightarrow> x | None \<Rightarrow> fallback_reply)),
              Map.empty(sessionId req_hello \<mapsto>
                chatHistory Map.empty (sessionId req_hello)
                @ [currentMessage (messages req_hello)]
                @ [Some \<lparr>role = RoleAssistant,
                         content = (case response_text r of
                                      Some x \<Rightarrow> x | None \<Rightarrow> fallback_reply)\<rparr>]),
              t)"
    by blast
  from r have "r = r_search_chatty"
    by (simp add: env_script_def)
  with post t show ?thesis
    by (simp add: r_search_chatty_def)
qed

text \<open>
  Claim C4 as stated fails for a model whose responses are pure function-call turns, with
  no text: after the five rounds the handler returns the fallback reply, which is the text
  of no response.
\<close>

theorem budget_exhausted_without_text:
  "requests_search r_search \<and> response_text r_search = None
   \<and> fst (POST (env_script (\<lambda>n. Inr r_search)) Map.empty req_hello)
     = Json 200 (MessageBody fallback_reply)
   \<and> calls (snd (snd (POST (env_script (\<lambda>n. Inr r_search)) Map.empty req_hello))) = 5"
  by code_simp

section \<open>Claims about the handler\<close>

text \<open>
  Claim C1, as amended. A request that arrives while no API key is configured is answered
  with status 500, before the store is touched and before any model call. An error of a
  model call whose message includes \<^verbatim>\<open>API_KEY\<close> and whose status code is neither 503 nor 429
  is not retried (it is the result of the retry loop, with no wait) and is mapped to
  status 401; a request whose first model call fails so is answered 401 after that one
  call, and its current message stays in the store.
\<close>

theorem credential_failures:
  "(no_key env \<longrightarrow> POST env store req = (Json 500 (ErrorBody MSG_KEY_NOT_SET), store, trace0))
   \<and> (attempt < maxRetries \<and> generateContent env (calls t) contents = Inl (Error msg)
      \<and> includes_js msg ''API_KEY'' \<and> statusCode msg \<noteq> 503 \<and> statusCode msg \<noteq> 429
    \<longrightarrow> retry_loop env contents attempt currentDelay t
        = (Inl (Error msg), t\<lparr>calls := calls t + 1\<rparr>)
      \<and> map_error (Error msg) = Json 401 (ErrorBody MSG_AUTH))
   \<and> (\<not> no_key env \<and> contents_of store req = Some cs
      \<and> generateContent env 0 cs = Inl (Error msg)
      \<and> includes_js msg ''API_KEY'' \<and> statusCode msg \<noteq> 503 \<and> statusCode msg \<noteq> 429
    \<longrightarrow> POST env store req
        = (Json 401 (ErrorBody MSG_AUTH),
           store(sessionId req \<mapsto>
             chatHistory store (sessionId req) @ [currentMessage (messages req)]),
           \<lparr>calls = 1, delays = [], searches = []\<rparr>))"
proof (intro conjI impI)
  assume "no_key env"
  then show "POST env store req = (Json 500 (ErrorBody MSG_KEY_NOT_SET), store, trace0)"
    by (rule POST_no_key)
next
  assume h: "attempt < maxRetries \<and> generateContent env (calls t) contents = Inl (Error msg)
      \<and> includes_js msg ''API_KEY'' \<and> statusCode msg \<noteq> 503 \<and> statusCode msg \<noteq> 429"
  then show "retry_loop env contents attempt currentDelay t
        = (Inl (Error msg), t\<lparr>calls := calls t + 1\<rparr>)"
    by (simp add: retry_loop_give_up classify_def)
  from h show "map_error (Error msg) = Json 401 (ErrorBody MSG_AUTH)"
    by (simp add: map_error_def)
next
  assume h: "\<not> no_key env \<and> contents_of store req = Some cs
      \<and> generateContent env 0 cs = Inl (Error msg)
      \<and> includes_js msg ''API_KEY'' \<and> statusCode msg \<noteq> 503 \<and> statusCode msg \<noteq> 429"
  then have "retry_loop env cs 0 2000 trace0
        = (Inl (Error msg), \<lparr>calls = 1, delays = [], searches = []\<rparr>)"
    by (simp add: retry_loop_give_up classify_def maxRetries_def trace0_def)
  then have "round_body env cs trace0 = Throws (Error msg) \<lparr>calls = 1, delays = [], searches = []\<rparr>"
    by (simp add: round_body_def)
  then have "tool_loop env 0 cs (length cs) None trace0
        = (Inl (Error msg), cs, \<lparr>calls = 1, delays = [], searches = []\<rparr>)"
    by (simp add: tool_loop_round maxToolCalls_def)
  with h show "POST env store req
        = (Json 401 (ErrorBody MSG_AUTH),
           store(sessionId req \<mapsto>
             chatHistory store (sessionId req) @ [currentMessage (messages req)]),
           \<lparr>calls = 1, delays = [], searches = []\<rparr>)"
    by (simp add: POST_with_key map_error_def)
qed

theorem credential_failures_witness:
  "POST env_no_key store_s1 req_hello = (Json 500 (ErrorBody MSG_KEY_NOT_SET), store_s1, trace0)
   \<and> retry_loop (env_script (\<lambda>n. Inl (Error msg_key_invalid))) [c_hello] 2 4000 trace0
     = (Inl (Error msg_key_invalid), \<lparr>calls = 1, delays = [], searches = []\<rparr>)
   \<and> map_error (Error msg_key_invalid) = Json 401 (ErrorBody MSG_AUTH)
   \<and> POST (env_script (\<lambda>n. Inl (Error msg_key_invalid))) Map.empty req_hello
     = (Json 401 (ErrorBody MSG_AUTH),
        [''s1'' \<mapsto> [Some \<lparr>role = RoleUser, content = ''hello''\<rparr>]],
        \<lparr>calls = 1, delays = [], searches = []\<rparr>)"
proof -
  let ?env = "env_script (\<lambda>n. Inl (Error msg_key_invalid))"
  have n: "no_key env_no_key" by code_simp
  have k: "\<not> no_key ?env" by code_simp
  have c: "contents_of Map.empty req_hello = Some [c_hello]" by code_simp
  have m: "includes_js msg_key_invalid ''API_KEY''"
    "statusCode msg_key_invalid \<noteq> 503" "statusCode msg_key_invalid \<noteq> 429"
    by code_simp+
  have g: "\<And>i cs. generateContent ?env i cs = Inl (Error msg_key_invalid)"
    by (simp add: env_script_def)
  have h: "chatHistory Map.empty ''s1'' = []"
    "currentMessage (messages req_hello) = Some \<lparr>role = RoleUser, content = ''hello''\<rparr>"
    by (simp_all add: chatHistory_def req_hello_def currentMessage_def)
  have s: "sessionId req_hello = ''s1''" by (simp add: req_hello_def)
  from credential_failures[where env = env_no_key and store = store_s1 and req = req_hello] n
  have a: "POST env_no_key store_s1 req_hello
           = (Json 500 (ErrorBody MSG_KEY_NOT_SET), store_s1, trace0)"
    by blast
  from credential_failures[where env = ?env and attempt = 2 and t = trace0
      and contents = "[c_hello]" and msg = msg_key_invalid and currentDelay = 4000
      and store = Map.empty and req = req_hello and cs = "[c_hello]"] k c m g
  have b: "retry_loop ?env [c_hello] 2 4000 trace0
           = (Inl (Error msg_key_invalid), trace0\<lparr>calls := calls trace0 + 1\<rparr>)
     \<and> map_error (Error msg_key_invalid) = Json 401 (ErrorBody MSG_AUTH)
     \<and> POST ?env Map.empty req_hello
        = (Json 401 (ErrorBody MSG_AUTH),
           Map.empty(sessionId req_hello \<mapsto>
             chatHistory Map.empty (sessionId req_hello) @ [currentMessage (messages req_hello)]),
           \<lparr>calls = 1, delays = [], searches = []\<rparr>)"
    by (simp add: maxRetries_def)
  from a b show ?thesis
    by (simp add: h s trace0_def)
qed

text \<open>
  Claim C1 as stated fails for the missing credential: the handler answers 500, not 401.
  It also fails for an error that mentions \<^verbatim>\<open>API_KEY\<close> under a 503 status code: the status
  code is looked at first, so the error is retried and answered 503.
\<close>

theorem missing_key_is_500:
  "GEMINI_API_KEY env_no_key = None
   \<and> fst (POST env_no_key Map.empty req_hello) = Json 500 (ErrorBody MSG_KEY_NOT_SET)
   \<and> includes_js (msg_503 @ ''API_KEY'') ''API_KEY''
   \<and> fst (POST (env_script (\<lambda>n. Inl (Error (msg_503 @ ''API_KEY'')))) Map.empty req_hello)
     = Json 503 (ErrorBody MSG_OVERLOADED)
   \<and> calls (snd (snd (POST (env_script (\<lambda>n. Inl (Error (msg_503 @ ''API_KEY''))))
                         Map.empty req_hello))) = 5"
  by code_simp



text \<open>
  The handler consults the model only at the calls it makes: two models that agree on the
  conversation of the current call and on all later calls give the same retry loop, the
  same round and the same tool loop.
\<close>

lemma retry_loop_same_model:
  assumes "generateContent env' (calls t) contents = generateContent env (calls t) contents"
    and "\<forall>n cs. calls t < n \<longrightarrow> generateContent env' n cs = generateContent env n cs"
  shows "retry_loop env' contents attempt currentDelay t
         = retry_loop env contents attempt currentDelay t"
  using assms
proof (induction env contents attempt currentDelay t rule: retry_loop.induct)
  case (1 env contents attempt currentDelay t)
  show ?case
  proof (cases "attempt < maxRetries")
    case False
    then show ?thesis by (simp add: retry_loop.simps)
  next
    case True
    show ?thesis
    proof (cases "generateContent env (calls t) contents")
      case (Inr response)
      with True "1.prems"(1) show ?thesis by (simp add: retry_loop_success)
    next
      case (Inl error)
      with "1.prems"(1) have Inl': "generateContent env' (calls t) contents = Inl error"
        by simp
      show ?thesis
      proof (cases "fst (classify error currentDelay) \<and> attempt < maxRetries - 1")
        case False
        with True have stop: "\<not> fst (classify error currentDelay) \<or> attempt = maxRetries - 1"
          by auto
        from True Inl stop Inl' show ?thesis
          by (simp only: retry_loop_give_up)
      next
        case again: True
        let ?t = "delay (snd (classify error currentDelay)) (t\<lparr>calls := calls t + 1\<rparr>)"
        from "1.prems"(2) have
          "generateContent env' (calls ?t) contents = generateContent env (calls ?t) contents"
          "\<forall>n cs. calls ?t < n \<longrightarrow> generateContent env' n cs = generateContent env n cs"
          by (simp_all add: delay_def)
        with "1.IH"[OF True Inl again]
        have "retry_loop env' contents (attempt + 1) (next_delay error currentDelay) ?t
              = retry_loop env contents (attempt + 1) (next_delay error currentDelay) ?t"
          by blast
        with again Inl Inl' show ?thesis
          by (simp add: retry_loop_again)
      qed
    qed
  qed
qed

lemma retry_loop_calls_grow:
  "attempt < maxRetries \<Longrightarrow>
   calls t < calls (snd (retry_loop env contents attempt currentDelay t))"
proof (induction env contents attempt currentDelay t rule: retry_loop.induct)
  case (1 env contents attempt currentDelay t)
  show ?case
  proof (cases "generateContent env (calls t) contents")
    case (Inr response)
    with "1.prems" show ?thesis by (simp add: retry_loop_success)
  next
    case (Inl error)
    show ?thesis
    proof (cases "fst (classify error currentDelay) \<and> attempt < maxRetries - 1")
      case False
      with "1.prems" have "\<not> fst (classify error currentDelay) \<or> attempt = maxRetries - 1"
        by auto
      with "1.prems" Inl show ?thesis by (simp add: retry_loop_give_up)
    next
      case again: True
      then have "attempt + 1 < maxRetries"
        by arith
      from "1.IH"[OF "1.prems" Inl again this]
      have "calls t + 1 < calls (snd (retry_loop env contents (attempt + 1)
                (next_delay error currentDelay)
                (delay (snd (classify error currentDelay)) (t\<lparr>calls := calls t + 1\<rparr>))))"
        by (simp add: delay_def)
      with again Inl show ?thesis
        by (simp add: retry_loop_again)
    qed
  qed
qed

lemma round_body_same_model:
  assumes "generateContent env' (calls t) contents = generateContent env (calls t) contents"
    and "\<forall>n cs. calls t < n \<longrightarrow> generateContent env' n cs = generateContent env n cs"
    and "cse_list env' = cse_list env" and "JSON_stringify env' = JSON_stringify env"
  shows "round_body env' contents t = round_body env contents t"
proof -
  have "googleSearch env' q t1 = googleSearch env q t1" for q t1
    using assms(3,4) by (simp add: googleSearch_def split: option.split)
  then show ?thesis
    by (simp add: round_body_def retry_loop_same_model[OF assms(1,2)]
        split: prod.split sum.split option.split)
qed

lemma round_body_calls_grow:
  assumes "round_body env contents t = Continues response contents' t'"
  shows "calls t < calls t'"
proof -
  obtain res t1 where r: "retry_loop env contents 0 2000 t = (res, t1)"
    by (cases "retry_loop env contents 0 2000 t")
  from retry_loop_calls_grow[of 0 t env contents 2000] r have "calls t < calls t1"
    by (simp add: maxRetries_def)
  with assms r show ?thesis
    by (auto simp add: round_body_def googleSearch_def
        split: sum.splits option.splits if_splits)
qed

lemma tool_loop_same_model:
  assumes "generateContent env' (calls t) contents = generateContent env (calls t) contents"
    and "\<forall>n cs. calls t < n \<longrightarrow> generateContent env' n cs = generateContent env n cs"
    and "cse_list env' = cse_list env" and "JSON_stringify env' = JSON_stringify env"
  shows "tool_loop env' i contents contentsLength fullResponse t
         = tool_loop env i contents contentsLength fullResponse t"
  using assms
proof (induction env i contents contentsLength fullResponse t rule: tool_loop.induct)
  case (1 env i contents contentsLength fullResponse t)
  show ?case
  proof (cases "i < maxToolCalls \<and> (length contents > contentsLength \<or> i = 0)")
    case False
    then have "tool_loop env' i contents contentsLength fullResponse t
               = (Inr fullResponse, contents, t)"
      by (subst tool_loop.simps) auto
    moreover from False have "tool_loop env i contents contentsLength fullResponse t
               = (Inr fullResponse, contents, t)"
      by (subst tool_loop.simps) auto
    ultimately show ?thesis
      by simp
  next
    case go: True
    have round: "round_body env' contents t = round_body env contents t"
      using "1.prems" by (rule round_body_same_model)
    show ?thesis
    proof (cases "round_body env contents t")
      case (Throws error t')
      with go round show ?thesis by (simp add: tool_loop_round)
    next
      case (Breaks response t')
      with go round show ?thesis by (simp add: tool_loop_round)
    next
      case (Continues response contents' t')
      then have "calls t < calls t'"
        by (rule round_body_calls_grow)
      with "1.prems"(2) have
        "generateContent env' (calls t') contents' = generateContent env (calls t') contents'"
        "\<forall>n cs. calls t' < n \<longrightarrow> generateContent env' n cs = generateContent env n cs"
        by simp_all
      with "1.IH" go Continues "1.prems"(3,4)
      have "tool_loop env' (i + 1) contents'
              (if length contents > contentsLength then length contents else contentsLength)
              response t'
            = tool_loop env (i + 1) contents'
              (if length contents > contentsLength then length contents else contentsLength)
              response t'"
        by auto
      with go round Continues show ?thesis
        by (simp add: tool_loop_round)
    qed
  qed
qed

text \<open>
  Claim C10. Of the \<^verbatim>\<open>messages\<close> of a request only the last one matters: the handler does
  the same for any elements before it as for none. Without a key the store is left as it
  is. With a key the history of the session grows by the last message, followed by the
  assistant's reply when the request succeeds, and by nothing else. The conversation sent
  to the model at its first call is the stored history followed by the last message, turn
  by turn: what the model would answer to any other conversation at that call does not
  change the result, and when it answers this one with a response without a function call,
  the handler replies with that response after this single call.
\<close>

theorem only_last_message_used:
  "POST env store (req\<lparr>messages := earlier @ [m]\<rparr>) = POST env store (req\<lparr>messages := [m]\<rparr>)
   \<and> (no_key env \<longrightarrow>
        fst (snd (POST env store (req\<lparr>messages := earlier @ [m]\<rparr>))) = store)
   \<and> (\<not> no_key env \<longrightarrow>
        (\<exists>rest.
           chatHistory (fst (snd (POST env store (req\<lparr>messages := earlier @ [m]\<rparr>))))
             (sessionId req)
           = chatHistory store (sessionId req) @ Some m # rest
           \<and> (rest = [] \<or> (\<exists>reply. rest = [Some \<lparr>role = RoleAssistant, content = reply\<rparr>]))))
   \<and> (\<not> no_key env \<and> chatHistory store (sessionId req) = map Some old
        \<and> GEMINI_API_KEY env' = GEMINI_API_KEY env
        \<and> cse_list env' = cse_list env \<and> JSON_stringify env' = JSON_stringify env
        \<and> generateContent env' 0 (map to_content (old @ [m]))
          = generateContent env 0 (map to_content (old @ [m]))
        \<and> (\<forall>n cs. 0 < n \<longrightarrow> generateContent env' n cs = generateContent env n cs)
      \<longrightarrow> POST env' store (req\<lparr>messages := earlier @ [m]\<rparr>)
          = POST env store (req\<lparr>messages := earlier @ [m]\<rparr>))
   \<and> (\<not> no_key env \<and> chatHistory store (sessionId req) = map Some old
        \<and> generateContent env 0 (map to_content (old @ [m])) = Inr r \<and> functionCalls r = []
      \<longrightarrow> POST env store (req\<lparr>messages := earlier @ [m]\<rparr>)
          = (Json 200 (MessageBody (reply_of (Some r))),
             store(sessionId req \<mapsto>
               map Some old @ [Some m, Some \<lparr>role = RoleAssistant, content = reply_of (Some r)\<rparr>]),
             \<lparr>calls = 1, delays = [], searches = []\<rparr>))"
proof -
  let ?req = "req\<lparr>messages := earlier @ [m]\<rparr>"
  have same: "POST env store ?req = POST env store (req\<lparr>messages := [m]\<rparr>)"
    by (simp add: POST_def contents_of_def currentMessage_def Let_def
        split: option.split prod.split sum.split)
  have nokey: "fst (snd (POST env store ?req)) = store" if "no_key env"
    using that by (simp add: POST_no_key)
  have grows: "\<exists>rest.
           chatHistory (fst (snd (POST env store ?req))) (sessionId req)
           = chatHistory store (sessionId req) @ Some m # rest
           \<and> (rest = [] \<or> (\<exists>reply. rest = [Some \<lparr>role = RoleAssistant, content = reply\<rparr>]))"
    if key: "\<not> no_key env"
  proof (cases "contents_of store ?req")
    case None
    with key show ?thesis
      by (simp add: POST_crash chatHistory_upd currentMessage_def)
  next
    case (Some contents)
    show ?thesis
    proof (cases "tool_loop env 0 contents (length contents) None trace0")
      case (fields res cs t)
      show ?thesis
      proof (cases res)
        case (Inl error)
        with key Some fields show ?thesis
          by (simp add: POST_with_key chatHistory_upd currentMessage_def)
      next
        case (Inr fullResponse)
        with key Some fields show ?thesis
          by (simp add: POST_with_key chatHistory_upd currentMessage_def)
      qed
    qed
  qed
  have contents: "contents_of store ?req = Some (map to_content (old @ [m]))"
    if "chatHistory store (sessionId req) = map Some old" for old
  proof -
    have "to_contents (map Some (old @ [m])) = Some (map to_content (old @ [m]))"
      by (rule to_contents_messages)
    with that show ?thesis
      by (simp add: contents_of_def currentMessage_def)
  qed
  have solely: "POST env' store ?req = POST env store ?req"
    if h: "\<not> no_key env \<and> chatHistory store (sessionId req) = map Some old
        \<and> GEMINI_API_KEY env' = GEMINI_API_KEY env
        \<and> cse_list env' = cse_list env \<and> JSON_stringify env' = JSON_stringify env
        \<and> generateContent env' 0 (map to_content (old @ [m]))
          = generateContent env 0 (map to_content (old @ [m]))
        \<and> (\<forall>n cs. 0 < n \<longrightarrow> generateContent env' n cs = generateContent env n cs)"
  proof -
    let ?cs = "map to_content (old @ [m])"
    from h have key': "\<not> no_key env'"
      by (simp add: no_key_def)
    from h have "generateContent env' (calls trace0) ?cs = generateContent env (calls trace0) ?cs"
      and "\<forall>n cs. calls trace0 < n \<longrightarrow> generateContent env' n cs = generateContent env n cs"
      by (simp_all add: trace0_def)
    with h have loop: "tool_loop env' 0 ?cs (length ?cs) None trace0
                 = tool_loop env 0 ?cs (length ?cs) None trace0"
      by (intro tool_loop_same_model) blast+
    from h have key: "\<not> no_key env" and cs: "contents_of store ?req = Some ?cs"
      using contents[of old] by blast+
    show ?thesis
      unfolding POST_with_key[OF key cs] POST_with_key[OF key' cs] loop ..
  qed
  have answered: "POST env store ?req
          = (Json 200 (MessageBody (reply_of (Some r))),
             store(sessionId req \<mapsto>
               map Some old @ [Some m, Some \<lparr>role = RoleAssistant, content = reply_of (Some r)\<rparr>]),
             \<lparr>calls = 1, delays = [], searches = []\<rparr>)"
    if h: "\<not> no_key env \<and> chatHistory store (sessionId req) = map Some old
        \<and> generateContent env 0 (map to_content (old @ [m])) = Inr r \<and> functionCalls r = []"
  proof -
    let ?cs = "map to_content (old @ [m])"
    from h have "retry_loop env ?cs 0 2000 trace0
                 = (Inr (Some r), \<lparr>calls = 1, delays = [], searches = []\<rparr>)"
      by (simp add: retry_loop_success maxRetries_def trace0_def)
    with h have "round_body env ?cs trace0
                 = Breaks (Some r) \<lparr>calls = 1, delays = [], searches = []\<rparr>"
      by (simp add: round_body_no_call)
    then have "tool_loop env 0 ?cs (length ?cs) None trace0
               = (Inr (Some r), ?cs, \<lparr>calls = 1, delays = [], searches = []\<rparr>)"
      by (simp add: tool_loop_round maxToolCalls_def)
    moreover from h have "\<not> no_key env" and "contents_of store ?req = Some ?cs"
      using contents[of old] by blast+
    moreover from h have "chatHistory store (sessionId req) = map Some old"
      by blast
    ultimately show ?thesis
      by (simp add: POST_with_key currentMessage_def)
  qed
  show ?thesis
  proof (intro conjI impI)
    show "POST env store ?req = POST env store (req\<lparr>messages := [m]\<rparr>)"
      by (rule same)
  qed (use nokey grows solely answered in blast)+
qed

theorem only_last_message_used_witness:
  "POST (env_picky [\<lparr>crole = ''user'', parts = [TextPart ''hi'']\<rparr>,
                    \<lparr>crole = ''model'', parts = [TextPart ''Hi there'']\<rparr>,
                    \<lparr>crole = ''user'', parts = [TextPart ''hello'']\<rparr>]) store_s1 req_resent
     = (Json 200 (MessageBody ''Hello!''),
        store_s1(''s1'' \<mapsto>
          [Some \<lparr>role = RoleUser, content = ''hi''\<rparr>,
           Some \<lparr>role = RoleAssistant, content = ''Hi there''\<rparr>,
           Some \<lparr>role = RoleUser, content = ''hello''\<rparr>,
           Some \<lparr>role = RoleAssistant, content = ''Hello!''\<rparr>]),
        \<lparr>calls = 1, delays = [], searches = []\<rparr>)
   \<and> POST (env_script (\<lambda>n. Inr r_hello)) store_s1 req_resent
     = POST (env_picky [\<lparr>crole = ''user'', parts = [TextPart ''hi'']\<rparr>,
                        \<lparr>crole = ''model'', parts = [TextPart ''Hi there'']\<rparr>,
                        \<lparr>crole = ''user'', parts = [TextPart ''hello'']\<rparr>]) store_s1 req_resent
   \<and> fst (snd (POST env_no_key store_s1 req_resent)) = store_s1"
proof -
  let ?m = "\<lparr>role = RoleUser, content = ''hello''\<rparr>"
  let ?earlier = "[\<lparr>role = RoleUser, content = ''earlier''\<rparr>,
                   \<lparr>role = RoleAssistant, content = ''made up''\<rparr>]"
  let ?old = "[\<lparr>role = RoleUser, content = ''hi''\<rparr>,
               \<lparr>role = RoleAssistant, content = ''Hi there''\<rparr>]"
  let ?cs = "[\<lparr>crole = ''user'', parts = [TextPart ''hi'']\<rparr>,
              \<lparr>crole = ''model'', parts = [TextPart ''Hi there'']\<rparr>,
              \<lparr>crole = ''user'', parts = [TextPart ''hello'']\<rparr>]"
  have r: "req_hello\<lparr>messages := ?earlier @ [?m]\<rparr> = req_resent"
    by (simp add: req_hello_def req_resent_def)
  have s: "sessionId req_hello = ''s1''"
    by (simp add: req_hello_def)
  have h: "chatHistory store_s1 (sessionId req_hello) = map Some ?old"
    by (simp add: chatHistory_def store_s1_def req_hello_def)
  have cs: "map to_content (?old @ [?m]) = ?cs"
    by (simp add: to_content_def)
  have k: "\<not> no_key (env_picky ?cs)" "no_key env_no_key"
    by (simp_all add: no_key_def env_picky_def env_no_key_def)
  have g: "generateContent (env_picky ?cs) 0 ?cs = Inr r_hello"
    by (simp add: env_picky_def)
  have f: "functionCalls r_hello = []" and t: "reply_of (Some r_hello) = ''Hello!''"
    by (simp_all add: r_hello_def reply_of_def)
  have e: "GEMINI_API_KEY (env_script (\<lambda>n. Inr r_hello)) = GEMINI_API_KEY (env_picky ?cs)"
    "cse_list (env_script (\<lambda>n. Inr r_hello)) = cse_list (env_picky ?cs)"
    "JSON_stringify (env_script (\<lambda>n. Inr r_hello)) = JSON_stringify (env_picky ?cs)"
    "generateContent (env_script (\<lambda>n. Inr r_hello)) 0 ?cs = generateContent (env_picky ?cs) 0 ?cs"
    "\<forall>n cs. 0 < n \<longrightarrow> generateContent (env_script (\<lambda>n. Inr r_hello)) n cs
                        = generateContent (env_picky ?cs) n cs"
    by (simp_all add: env_script_def env_picky_def)
  note inst = only_last_message_used[where store = store_s1 and req = req_hello
      and earlier = ?earlier and m = ?m and old = ?old and r = r_hello]
  from inst[where env = "env_picky ?cs" and env' = "env_script (\<lambda>n. Inr r_hello)"] k h g f e
  have a: "POST (env_picky ?cs) store_s1 req_resent
     = (Json 200 (MessageBody ''Hello!''),
        store_s1(''s1'' \<mapsto>
          map Some ?old @ [Some ?m, Some \<lparr>role = RoleAssistant, content = ''Hello!''\<rparr>]),
        \<lparr>calls = 1, delays = [], searches = []\<rparr>)"
    and b: "POST (env_script (\<lambda>n. Inr r_hello)) store_s1 req_resent
            = POST (env_picky ?cs) store_s1 req_resent"
    unfolding cs r s t by blast+
  from inst[where env = env_no_key and env' = env_no_key] k
  have c: "fst (snd (POST env_no_key store_s1 req_resent)) = store_s1"
    unfolding r by blast
  from a b c show ?thesis
    by simp
qed

section \<open>Where the backoff departs from the classification\<close>

text \<open>
  Claim C2 (evaluation at a failing input). The backoff is doubled when the message
  includes the text \<^verbatim>\<open>code":503\<close>, while an error is classified by the first status code in
  its message. A rate-limit error that also mentions a 503 is classified 429, with no 503
  classification, yet the wait after it doubles: two such failures wait 2000 and then 4000.
  And an error whose status code is written \<^verbatim>\<open>0503\<close> is classified 503 and retried, but the
  wait stays at 2000: two such failures and a success make three attempts with waits 2000
  and 2000.
\<close>

theorem backoff_grows_on_rate_limit_error:
  "classified (Error msg_429_then_503) 429
   \<and> retry_loop (env_script (\<lambda>n. if n < 2 then Inl (Error msg_429_then_503) else Inr r_hello))
       [c_hello] 0 2000 trace0
     = (Inr (Some r_hello), \<lparr>calls = 3, delays = [Finite 2000, Finite 4000], searches = []\<rparr>)
   \<and> classified (Error msg_0503) 503
   \<and> retry_loop (env_script (\<lambda>n. if n < 2 then Inl (Error msg_0503) else Inr r_hello))
       [c_hello] 0 2000 trace0
     = (Inr (Some r_hello), \<lparr>calls = 3, delays = [Finite 2000, Finite 2000], searches = []\<rparr>)"
  by code_simp

text \<open>
  Claim C3 (evaluation at a failing input). A rate-limit error whose message advises
  \<^verbatim>\<open>retry in 2.5s\<close> and also mentions a 503 is classified 429 and waits 3000; the next error
  is a plain rate-limit error with no advice, and it waits 4000, not the base 2000: the
  backoff value was doubled by the first, rate-limited, retry.
\<close>

theorem rate_limit_retry_doubles_backoff:
  "classified (Error msg_429_advised_then_503) 429 \<and> classified (Error msg_429) 429
   \<and> match_retry msg_429 = None
   \<and> retry_loop
       (env_script (\<lambda>n. if n = 0 then Inl (Error msg_429_advised_then_503)
                        else if n = 1 then Inl (Error msg_429) else Inr r_hello))
       [c_hello] 0 2000 trace0
     = (Inr (Some r_hello),
        \<lparr>calls = 3, delays = [Finite 3000, Finite 4000], searches = []\<rparr>)"
proof -
  let ?env = "env_script (\<lambda>n. if n = 0 then Inl (Error msg_429_advised_then_503)
                        else if n = 1 then Inl (Error msg_429) else Inr r_hello)"
  let ?t1 = "\<lparr>calls = 1, delays = [Finite 3000], searches = []\<rparr>"
  let ?t2 = "\<lparr>calls = 2, delays = [Finite 3000, Finite 4000], searches = []\<rparr>"
  have a: "statusCode msg_429_advised_then_503 = 429" "statusCode msg_429 = 429"
    "match_retry msg_429_advised_then_503 = Some (''2'', ''5'')" "match_retry msg_429 = None"
    "includes_js msg_429_advised_then_503 pattern_503" "\<not> includes_js msg_429 pattern_503"
    by code_simp+
  have c: "classify (Error msg_429_advised_then_503) 2000 = (True, Finite 3000)"
    "classify (Error msg_429) 4000 = (True, Finite 4000)"
    "next_delay (Error msg_429_advised_then_503) 2000 = 4000"
    "next_delay (Error msg_429) 4000 = 4000"
    by (simp_all add: classify_def next_delay_def a advised_2_5)
  have g: "generateContent ?env (calls trace0) [c_hello] = Inl (Error msg_429_advised_then_503)"
    "generateContent ?env (calls ?t1) [c_hello] = Inl (Error msg_429)"
    "generateContent ?env (calls ?t2) [c_hello] = Inr r_hello"
    by (simp_all add: env_script_def trace0_def)
  have "retry_loop ?env [c_hello] 0 2000 trace0 = retry_loop ?env [c_hello] 1 4000 ?t1"
    using g(1) by (simp add: retry_loop_again c maxRetries_def delay_def trace0_def)
  also have "\<dots> = retry_loop ?env [c_hello] 2 4000 ?t2"
    using g(2)
    by (simp add: retry_loop_again[where error = "Error msg_429"] c maxRetries_def delay_def
        numeral_2_eq_2)
  also have "\<dots> = (Inr (Some r_hello),
                    \<lparr>calls = 3, delays = [Finite 3000, Finite 4000], searches = []\<rparr>)"
    using g(3) by (simp add: retry_loop_success maxRetries_def)
  finally show ?thesis
    by (simp add: classified_def a)
qed

section \<open>The backoff where classification and doubling agree\<close>

lemma match_code_includes:
  "match_code msg = Some ds \<Longrightarrow> includes_js msg (code_colon @ ds)"
proof (induction msg)
  case Nil
  then show ?case by simp
next
  case (Cons c cs)
  show ?case
  proof (cases "prefix code_colon (c # cs)
      \<and> takeWhile is_digit (drop (length code_colon) (c # cs)) \<noteq> []")
    case True
    with Cons.prems have ds: "ds = takeWhile is_digit (drop (length code_colon) (c # cs))"
      by simp
    from True obtain rest where rest: "c # cs = code_colon @ rest"
      by (auto simp add: prefix_def)
    then have "drop (length code_colon) (c # cs) = rest"
      by simp
    with ds have "rest = ds @ dropWhile is_digit rest"
      by simp
    with rest have "c # cs = (code_colon @ ds) @ dropWhile is_digit rest"
      by simp
    then have "prefix (code_colon @ ds) (c # cs)"
      by (metis prefixI)
    then show ?thesis
      by simp
  next
    case False
    with Cons.prems have "match_code cs = Some ds"
      by auto
    with Cons.IH show ?thesis
      by simp
  qed
qed

text \<open>
  When the first status code in the messages of two failed attempts is written \<^verbatim>\<open>503\<close> and
  the third attempt succeeds, the retry loop calls the model three times and waits the
  base delay of 2000 and then its double.
\<close>

theorem overloaded_backoff_doubles:
  "match_code m1 = Some ''503'' \<and> match_code m2 = Some ''503''
     \<and> generateContent env (calls t) contents = Inl (Error m1)
     \<and> generateContent env (calls t + 1) contents = Inl (Error m2)
     \<and> generateContent env (calls t + 2) contents = Inr r
   \<longrightarrow> retry_loop env contents 0 2000 t
       = (Inr (Some r), t\<lparr>calls := calls t + 3, delays := delays t @ [Finite 2000, Finite 4000]\<rparr>)"
proof (intro impI)
  assume h: "match_code m1 = Some ''503'' \<and> match_code m2 = Some ''503''
     \<and> generateContent env (calls t) contents = Inl (Error m1)
     \<and> generateContent env (calls t + 1) contents = Inl (Error m2)
     \<and> generateContent env (calls t + 2) contents = Inr r"
  have p: "parseInt ''503'' = 503"
    by code_simp
  from h have s: "statusCode m1 = 503" "statusCode m2 = 503"
    by (simp_all add: statusCode_def p)
  from h have i: "includes_js m1 pattern_503" "includes_js m2 pattern_503"
    by (simp_all add: match_code_includes pattern_503_def)
  have c: "classify (Error m1) d = (True, Finite d)" "classify (Error m2) d = (True, Finite d)"
    for d
    using s by (simp_all add: classify_def)
  have n: "next_delay (Error m1) d = d * 2" "next_delay (Error m2) d = d * 2" for d
    using i by (simp_all add: next_delay_def)
  define t1 where "t1 = delay (Finite 2000) (t\<lparr>calls := calls t + 1\<rparr>)"
  define t2 where "t2 = delay (Finite 4000) (t1\<lparr>calls := calls t1 + 1\<rparr>)"
  have c1: "calls t1 = calls t + 1" and c2: "calls t2 = calls t + 2"
    by (simp_all add: t1_def t2_def delay_def)
  have "retry_loop env contents 0 2000 t = retry_loop env contents 1 4000 t1"
    using h by (simp add: retry_loop_again c n t1_def maxRetries_def)
  also have "\<dots> = retry_loop env contents 2 8000 t2"
    using h
    by (simp add: retry_loop_again[where error = "Error m2"] c n c1 t2_def maxRetries_def
        numeral_2_eq_2)
  also have "\<dots> = (Inr (Some r), t2\<lparr>calls := calls t2 + 1\<rparr>)"
    using h by (simp add: retry_loop_success c2 maxRetries_def)
  also have "t2\<lparr>calls := calls t2 + 1\<rparr>
             = t\<lparr>calls := calls t + 3, delays := delays t @ [Finite 2000, Finite 4000]\<rparr>"
    by (simp add: t1_def t2_def delay_def)
  finally show "retry_loop env contents 0 2000 t
       = (Inr (Some r), t\<lparr>calls := calls t + 3, delays := delays t @ [Finite 2000, Finite 4000]\<rparr>)" .
qed

theorem overloaded_backoff_doubles_witness:
  "retry_loop (env_script (\<lambda>n. if n < 2 then Inl (Error msg_503) else Inr r_hello))
     [c_hello] 0 2000 trace0
   = (Inr (Some r_hello), \<lparr>calls = 3, delays = [Finite 2000, Finite 4000], searches = []\<rparr>)"
proof -
  let ?env = "env_script (\<lambda>n. if n < 2 then Inl (Error msg_503) else Inr r_hello)"
  have m: "match_code msg_503 = Some ''503''"
    by code_simp
  have g: "generateContent ?env (calls trace0) [c_hello] = Inl (Error msg_503)"
    "generateContent ?env (calls trace0 + 1) [c_hello] = Inl (Error msg_503)"
    "generateContent ?env (calls trace0 + 2) [c_hello] = Inr r_hello"
    by (simp_all add: env_script_def trace0_def)
  from overloaded_backoff_doubles[where ?m1.0 = msg_503 and ?m2.0 = msg_503 and env = ?env
      and t = trace0 and contents = "[c_hello]" and r = r_hello] m g
  show ?thesis
    by (simp add: trace0_def)
qed

text \<open>
  A failure classified 429 before the last attempt is retried after a wait of the advised
  seconds times 1000 plus 500, computed in doubles, when its message advises a duration,
  and of the current backoff otherwise; when the message does not include \<^verbatim>\<open>code":503\<close>,
  the next attempt starts with the same backoff.
\<close>

theorem rate_limit_delay:
  "attempt < maxRetries - 1 \<and> generateContent env (calls t) contents = Inl (Error msg)
     \<and> statusCode msg = 429 \<and> \<not> includes_js msg pattern_503
   \<longrightarrow> retry_loop env contents attempt currentDelay t
       = retry_loop env contents (attempt + 1) currentDelay
           (t\<lparr>calls := calls t + 1,
              delays := delays t @ [case match_retry msg of
                                      Some d \<Rightarrow> js_plus (js_times (parseFloat d) 1000) 500
                                    | None \<Rightarrow> Finite currentDelay]\<rparr>)"
  by (simp add: retry_loop_again classify_def next_delay_def delay_def)

theorem rate_limit_delay_witness:
  "match_retry msg_429_advised = Some (''2'', ''5'')
   \<and> parseFloat (''2'', ''5'') = Finite (5 / 2)
   \<and> js_plus (js_times (parseFloat (''2'', ''5'')) 1000) 500 = Finite 3000
   \<and> retry_loop (env_script (\<lambda>n. if n < 1 then Inl (Error msg_429_advised)
                                 else if n < 2 then Inl (Error msg_429) else Inr r_hello))
       [c_hello] 0 2000 trace0
     = (Inr (Some r_hello),
        \<lparr>calls = 3, delays = [Finite 3000, Finite 2000], searches = []\<rparr>)"
proof -
  let ?env = "env_script (\<lambda>n. if n < 1 then Inl (Error msg_429_advised)
                                 else if n < 2 then Inl (Error msg_429) else Inr r_hello)"
  let ?t1 = "\<lparr>calls = 1, delays = [Finite 3000], searches = []\<rparr>"
  let ?t2 = "\<lparr>calls = 2, delays = [Finite 3000, Finite 2000], searches = []\<rparr>"
  have a: "match_retry msg_429_advised = Some (''2'', ''5'')" "match_retry msg_429 = None"
    "statusCode msg_429_advised = 429" "statusCode msg_429 = 429"
    "\<not> includes_js msg_429_advised pattern_503" "\<not> includes_js msg_429 pattern_503"
    by code_simp+
  have p: "parseFloat (''2'', ''5'') = Finite (5 / 2)"
    "js_plus (js_times (Finite (5 / 2)) 1000) 500 = Finite 3000"
    by (simp_all add: parseFloat_def decimal_2_5 to_double_5_2 js_times_def to_double_2500
        js_plus_def to_double_3000)
  have g: "generateContent ?env (calls trace0) [c_hello] = Inl (Error msg_429_advised)"
    "generateContent ?env (calls ?t1) [c_hello] = Inl (Error msg_429)"
    "generateContent ?env (calls ?t2) [c_hello] = Inr r_hello"
    by (simp_all add: env_script_def trace0_def)
  from rate_limit_delay[where attempt = 0 and env = ?env and t = trace0
      and contents = "[c_hello]" and msg = msg_429_advised and currentDelay = 2000] a g
  have "retry_loop ?env [c_hello] 0 2000 trace0 = retry_loop ?env [c_hello] 1 2000 ?t1"
    by (simp add: maxRetries_def trace0_def p)
  also from rate_limit_delay[where attempt = 1 and env = ?env and t = ?t1
      and contents = "[c_hello]" and msg = msg_429 and currentDelay = 2000] a g
  have "\<dots> = retry_loop ?env [c_hello] 2 2000 ?t2"
    by (simp add: maxRetries_def numeral_2_eq_2)
  also have "\<dots> = (Inr (Some r_hello),
                    \<lparr>calls = 3, delays = [Finite 3000, Finite 2000], searches = []\<rparr>)"
    using g by (simp add: retry_loop_success maxRetries_def)
  finally show ?thesis
    using a p by simp
qed

end
